theory Spec2Isabelle
  imports Main
begin

section \<open>JavaScript values\<close>

text \<open>
  \<^verbatim>\<open>transformProtectionResponse\<close>, the \<^verbatim>\<open>cleanInput\<close> construction of
  \<^verbatim>\<open>updateBranchProtection\<close> and \<^verbatim>\<open>diffProtection\<close> work on
  \<^verbatim>\<open>Record<string, unknown>\<close>: their behaviour depends on whether a property is
  missing (\<^verbatim>\<open>undefined\<close>), \<^verbatim>\<open>null\<close> or a value of any type. These functions are
  modelled on a datatype of JavaScript values. A number is an integer here (the only
  numbers of a protection record are counts and ids); an object is the list of its own
  properties in insertion order, with distinct keys, none of them written as an integer
  (\<^verbatim>\<open>Object.keys\<close> would list such keys first).
\<close>

datatype jsval =
    JUndefined
  | JNull
  | JBool bool
  | JNum int
  | JStr string
  | JArr "jsval list"
  | JObj "(string \<times> jsval) list"

type_synonym jsobj = "(string \<times> jsval) list"

text \<open>\<^verbatim>\<open>obj[k]\<close>: a missing property reads as \<^verbatim>\<open>undefined\<close>.\<close>

definition getProp :: "jsobj \<Rightarrow> string \<Rightarrow> jsval" where
  "getProp obj k = (case map_of obj k of Some v \<Rightarrow> v | None \<Rightarrow> JUndefined)"

text \<open>\<^verbatim>\<open>Object.keys(obj)\<close>.\<close>

definition objectKeys :: "jsobj \<Rightarrow> string list" where
  "objectKeys obj = map fst obj"

text \<open>\<^verbatim>\<open>a ?? b\<close>.\<close>

definition nullish :: "jsval \<Rightarrow> jsval \<Rightarrow> jsval" where
  "nullish a b = (if a = JUndefined \<or> a = JNull then b else a)"

text \<open>The truthiness a condition \<^verbatim>\<open>v ? x : y\<close> tests.\<close>

fun truthy :: "jsval \<Rightarrow> bool" where
  "truthy JUndefined = False"
| "truthy JNull = False"
| "truthy (JBool b) = b"
| "truthy (JNum n) = (n \<noteq> 0)"
| "truthy (JStr s) = (s \<noteq> [])"
| "truthy (JArr xs) = True"
| "truthy (JObj kvs) = True"

subsection \<open>JSON.stringify\<close>

definition digitChar :: "nat \<Rightarrow> char" where
  "digitChar d = ''0123456789abcdef'' ! d"

function natToString :: "nat \<Rightarrow> string" where
  "natToString n =
     (if n < 10 then [digitChar n] else natToString (n div 10) @ [digitChar (n mod 10)])"
  by pat_completeness auto
termination
  by (relation "measure id") auto

definition numberToString :: "int \<Rightarrow> string" where
  "numberToString i =
     (if i < 0 then CHR ''-'' # natToString (nat (- i)) else natToString (nat i))"

text \<open>
  QuoteJSONString: the double quote and the backslash are escaped, a control character
  has its short escape or \<^verbatim>\<open>\u00XX\<close>.
\<close>

definition quoteChar :: "char \<Rightarrow> string" where
  "quoteChar c =
     (if c = CHR 0x22 then [CHR 0x5C, CHR 0x22]
      else if c = CHR 0x5C then [CHR 0x5C, CHR 0x5C]
      else if c = CHR 0x08 then [CHR 0x5C, CHR ''b'']
      else if c = CHR 0x09 then [CHR 0x5C, CHR ''t'']
      else if c = CHR 0x0A then [CHR 0x5C, CHR ''n'']
      else if c = CHR 0x0C then [CHR 0x5C, CHR ''f'']
      else if c = CHR 0x0D then [CHR 0x5C, CHR ''r'']
      else if (of_char c :: nat) < 32
        then [CHR 0x5C, CHR ''u'', CHR ''0'', CHR ''0'',
              digitChar (of_char c div 16), digitChar (of_char c mod 16)]
      else [c])"

definition quoteJSONString :: "string \<Rightarrow> string" where
  "quoteJSONString s = [CHR 0x22] @ concat (map quoteChar s) @ [CHR 0x22]"

fun joinWith :: "string \<Rightarrow> string list \<Rightarrow> string" where
  "joinWith sep [] = []"
| "joinWith sep [x] = x"
| "joinWith sep (x # y # ys) = x @ sep @ joinWith sep (y # ys)"

text \<open>
  \<^verbatim>\<open>JSON.stringify(v)\<close> with no indentation. \<^verbatim>\<open>undefined\<close> has no JSON text
  (\<open>None\<close>: the call returns \<^verbatim>\<open>undefined\<close>); inside an array it is written
  \<^verbatim>\<open>null\<close>, inside an object the property is left out.
\<close>

fun stringify :: "jsval \<Rightarrow> string option"
  and stringifyElems :: "jsval list \<Rightarrow> string list"
  and stringifyProps :: "(string \<times> jsval) list \<Rightarrow> string list" where
  "stringify JUndefined = None"
| "stringify JNull = Some ''null''"
| "stringify (JBool b) = Some (if b then ''true'' else ''false'')"
| "stringify (JNum n) = Some (numberToString n)"
| "stringify (JStr s) = Some (quoteJSONString s)"
| "stringify (JArr xs) = Some (''['' @ joinWith '','' (stringifyElems xs) @ '']'')"
| "stringify (JObj kvs) = Some (''{'' @ joinWith '','' (stringifyProps kvs) @ ''}'')"
| "stringifyElems [] = []"
| "stringifyElems (x # xs) =
     (case stringify x of None \<Rightarrow> ''null'' | Some s \<Rightarrow> s) # stringifyElems xs"
| "stringifyProps [] = []"
| "stringifyProps ((k, v) # kvs) =
     (case stringify v of
        None \<Rightarrow> stringifyProps kvs
      | Some s \<Rightarrow> (quoteJSONString k @ '':'' @ s) # stringifyProps kvs)"


section \<open>api/github.ts: reading and writing a protection record\<close>

text \<open>
  \<^verbatim>\<open>extractEnabled(value)\<close>: \<^verbatim>\<open>null\<close> for a missing or null value, the
  \<^verbatim>\<open>enabled\<close> property of an object that has one (\<^verbatim>\<open>'enabled' in value\<close>),
  and the value itself otherwise.
\<close>

fun extractEnabled :: "jsval \<Rightarrow> jsval" where
  "extractEnabled JUndefined = JNull"
| "extractEnabled JNull = JNull"
| "extractEnabled (JObj kvs) =
     (if ''enabled'' \<in> set (objectKeys kvs) then getProp kvs ''enabled'' else JObj kvs)"
| "extractEnabled v = v"

definition transformProtectionResponse :: "jsobj \<Rightarrow> jsobj" where
  "transformProtectionResponse raw =
     [(''url'', getProp raw ''url''),
      (''required_pull_request_reviews'', getProp raw ''required_pull_request_reviews''),
      (''required_status_checks'', getProp raw ''required_status_checks''),
      (''enforce_admins'', extractEnabled (getProp raw ''enforce_admins'')),
      (''required_linear_history'', extractEnabled (getProp raw ''required_linear_history'')),
      (''allow_force_pushes'', extractEnabled (getProp raw ''allow_force_pushes'')),
      (''allow_deletions'', extractEnabled (getProp raw ''allow_deletions'')),
      (''block_creations'', extractEnabled (getProp raw ''block_creations'')),
      (''required_conversation_resolution'',
         extractEnabled (getProp raw ''required_conversation_resolution'')),
      (''restrictions'', getProp raw ''restrictions''),
      (''required_signatures'',
         (if truthy (getProp raw ''required_signatures'')
          then JObj [(''enabled'', extractEnabled (getProp raw ''required_signatures''))]
          else JNull)),
      (''lock_branch'', extractEnabled (getProp raw ''lock_branch''))]"

text \<open>
  The record \<^verbatim>\<open>cleanInput\<close> that \<^verbatim>\<open>updateBranchProtection\<close> builds from its
  argument and sends with the PUT request.
\<close>

definition cleanInput :: "jsobj \<Rightarrow> jsobj" where
  "cleanInput protection =
     [(''required_pull_request_reviews'',
         nullish (getProp protection ''required_pull_request_reviews'') JNull),
      (''required_status_checks'', nullish (getProp protection ''required_status_checks'') JNull),
      (''enforce_admins'', nullish (getProp protection ''enforce_admins'') (JBool False)),
      (''required_linear_history'',
         nullish (getProp protection ''required_linear_history'') (JBool False)),
      (''allow_force_pushes'', nullish (getProp protection ''allow_force_pushes'') (JBool False)),
      (''allow_deletions'', nullish (getProp protection ''allow_deletions'') (JBool False)),
      (''block_creations'', nullish (getProp protection ''block_creations'') (JBool False)),
      (''required_conversation_resolution'',
         nullish (getProp protection ''required_conversation_resolution'') (JBool True)),
      (''restrictions'', nullish (getProp protection ''restrictions'') JNull)]"

text \<open>The six boolean-flag fields of a protection record.\<close>

definition flagKeys :: "string list" where
  "flagKeys =
     [''enforce_admins'', ''required_linear_history'', ''allow_force_pushes'',
      ''allow_deletions'', ''block_creations'', ''required_conversation_resolution'']"

text \<open>
  A value of the declared type of a flag of \<^verbatim>\<open>BranchProtectionInput\<close>
  (\<^verbatim>\<open>enforce_admins?: boolean\<close>): a boolean, or no value.
\<close>

fun isFlagValue :: "jsval \<Rightarrow> bool" where
  "isFlagValue JUndefined = True"
| "isFlagValue JNull = True"
| "isFlagValue (JBool b) = True"
| "isFlagValue v = False"

definition flagsTyped :: "jsobj \<Rightarrow> bool" where
  "flagsTyped c = list_all (\<lambda>k. isFlagValue (getProp c k)) flagKeys"


section \<open>components/PreviewPane.ts: the diff\<close>

record Diff =
  added :: "string list"
  removed :: "string list"
  changed :: "string list"

text \<open>\<^verbatim>\<open>new Set([...])\<close>: each key once, in the order of its first occurrence.\<close>

definition keySet :: "string list \<Rightarrow> string list" where
  "keySet ks = fold (\<lambda>k acc. if k \<in> set acc then acc else acc @ [k]) ks []"

text \<open>
  \<^verbatim>\<open>current ? current[key] : undefined\<close>, with \<open>None\<close> for a \<^verbatim>\<open>null\<close>
  \<open>current\<close>, and the body of the loop over the keys. The two results of
  \<^verbatim>\<open>JSON.stringify\<close> are compared as they are, so two \<^verbatim>\<open>undefined\<close> results
  are equal.
\<close>

definition currentValue :: "jsobj option \<Rightarrow> string \<Rightarrow> jsval" where
  "currentValue current key = (case current of None \<Rightarrow> JUndefined | Some c \<Rightarrow> getProp c key)"

definition diffStep :: "jsobj option \<Rightarrow> jsobj \<Rightarrow> string \<Rightarrow> Diff \<Rightarrow> Diff" where
  "diffStep current proposed key d =
     (if key = ''url'' then d
      else
        let currentVal = currentValue current key;
            proposedVal = getProp proposed key
        in if currentVal = JUndefined \<and> proposedVal \<noteq> JUndefined
             then d\<lparr>added := added d @ [key]\<rparr>
           else if currentVal \<noteq> JUndefined \<and> proposedVal = JUndefined
             then d\<lparr>removed := removed d @ [key]\<rparr>
           else if stringify currentVal \<noteq> stringify proposedVal
             then d\<lparr>changed := changed d @ [key]\<rparr>
           else d)"

definition diffProtection :: "jsobj option \<Rightarrow> jsobj \<Rightarrow> Diff" where
  "diffProtection current proposed =
     fold (diffStep current proposed)
       (keySet (objectKeys (case current of None \<Rightarrow> [] | Some c \<Rightarrow> c) @ objectKeys proposed))
       \<lparr>added = [], removed = [], changed = []\<rparr>"


section \<open>types.ts: the typed records\<close>

text \<open>
  The interfaces of \<^verbatim>\<open>types.ts\<close> as records. Field names are the source's, with a
  prefix where two interfaces share a name (\<open>repo_name\<close>, \<open>tgt_repo\<close>, \<open>res_repo\<close>).
  An optional property (\<^verbatim>\<open>x?: T\<close>) is an \<open>option\<close>; a property that may also be
  \<^verbatim>\<open>null\<close> (\<^verbatim>\<open>x?: T | null\<close>) is a \<open>nullable\<close>, which keeps the absent property
  and \<^verbatim>\<open>null\<close> apart.
\<close>

datatype 'a nullable = Absent | Null | Val 'a

text \<open>\<^verbatim>\<open>{users, teams, apps}\<close>: the allow-lists of reviews and restrictions.\<close>

record Actors =
  users :: "string list"
  teams :: "string list"
  apps :: "string list option"

record RequiredPullRequestReviews =
  dismiss_stale_reviews :: bool
  require_code_owner_reviews :: bool
  required_approving_review_count :: int
  dismissal_restrictions :: "Actors nullable"
  bypass_pull_request_allowances :: "Actors nullable"

record StatusCheck =
  check_context :: string
  app_id :: "int option"

record RequiredStatusChecks =
  strict :: bool
  contexts :: "string list"
  checks :: "StatusCheck list option"

text \<open>
  \<^verbatim>\<open>BranchProtection\<close> and \<^verbatim>\<open>BranchProtectionInput\<close>. The input interface is the
  first nine properties, each optional; \<^verbatim>\<open>BranchProtection\<close> adds \<open>url\<close>,
  \<open>required_signatures\<close> and \<open>lock_branch\<close>, all three optional. TypeScript accepts an
  object of the larger interface where the smaller is expected and the object keeps its
  properties, so one record stands for the objects of both: an input is a record whose
  last three fields are absent. \<open>required_signatures = Val b\<close> is the object
  \<^verbatim>\<open>{enabled: b}\<close>.
\<close>

record BranchProtection =
  required_pull_request_reviews :: "RequiredPullRequestReviews nullable"
  required_status_checks :: "RequiredStatusChecks nullable"
  enforce_admins :: "bool option"
  required_linear_history :: "bool option"
  allow_force_pushes :: "bool option"
  allow_deletions :: "bool option"
  block_creations :: "bool option"
  required_conversation_resolution :: "bool option"
  restrictions :: "Actors nullable"
  url :: "string option"
  required_signatures :: "bool nullable"
  lock_branch :: "bool option"

record Organization =
  org_login :: string
  org_id :: "int option"
  avatar_url :: "string option"
  org_description :: "string option"

record Permissions =
  admin :: bool
  maintain :: bool
  push :: bool
  pull :: bool

text \<open>
  A \<^verbatim>\<open>Repository\<close>. The objects that \<^verbatim>\<open>applyProtectionToMultiple\<close> and the local
  mode build with \<^verbatim>\<open>as Repository\<close> hold \<open>name\<close>, \<open>full_name\<close> and \<open>owner.login\<close>
  only, so the other properties are optional here.
\<close>

record Repository =
  repo_id :: "int option"
  repo_name :: string
  full_name :: string
  owner_login :: string
  is_private :: "bool option"
  default_branch :: "string option"
  permissions :: "Permissions option"

record Branch =
  branch_name :: string
  is_protected :: bool
  protection_url :: "string option"

record Template =
  tpl_name :: string
  tpl_description :: "string option"
  created_at :: string
  updated_at :: string
  tpl_protection :: BranchProtection

record ApplyResult =
  res_repo :: Repository
  res_branch :: string
  res_success :: bool
  res_error :: "string option"


section \<open>utils/templates.ts: the template store\<close>

text \<open>
  The templates directory maps a template's name to the template its file holds.
  \<^verbatim>\<open>loadTemplate\<close> returns \<^verbatim>\<open>null\<close> for a file that is missing or does not parse,
  which is \<open>None\<close> here; the directory exists and writing succeeds. A template is
  written as JSON and parsed when read, which gives back its name, description and
  timestamps as they were written.
\<close>

type_synonym templateStore = "string \<rightharpoonup> Template"

definition loadTemplate :: "string \<Rightarrow> templateStore \<Rightarrow> Template option" where
  "loadTemplate name fs = fs name"

text \<open>
  \<^verbatim>\<open>saveTemplate(name, protection, description)\<close>; \<open>now\<close> is the text of
  \<^verbatim>\<open>new Date().toISOString()\<close> at the call. \<^verbatim>\<open>a || b\<close> takes \<open>b\<close> when \<open>a\<close> is
  missing or the empty string. The result is the template returned and the store after
  the write.
\<close>

definition saveTemplate ::
  "string \<Rightarrow> BranchProtection \<Rightarrow> string option \<Rightarrow> string \<Rightarrow> templateStore
     \<Rightarrow> Template \<times> templateStore" where
  "saveTemplate name protection description now fs =
     (let existing = loadTemplate name fs;
          existingDescription =
            (case existing of None \<Rightarrow> None | Some e \<Rightarrow> tpl_description e);
          template =
            \<lparr>tpl_name = name,
             tpl_description =
               (case description of
                  None \<Rightarrow> existingDescription
                | Some d \<Rightarrow> if d \<noteq> [] then Some d else existingDescription),
             created_at =
               (case existing of
                  None \<Rightarrow> now
                | Some e \<Rightarrow> if created_at e \<noteq> [] then created_at e else now),
             updated_at = now,
             tpl_protection = protection\<rparr>
      in (template, fs(name \<mapsto> template)))"


section \<open>api/github.ts: applying one protection to many targets\<close>

record Target =
  tgt_owner :: string
  tgt_repo :: string
  tgt_branch :: string

text \<open>
  How one awaited call of \<^verbatim>\<open>updateBranchProtection\<close> ends: it returns, it throws an
  \<^verbatim>\<open>Error\<close> with a message, or it throws a value that is no \<^verbatim>\<open>Error\<close>.
\<close>

datatype outcome = Returned | ThrewError string | ThrewOther

text \<open>
  The two \<^verbatim>\<open>results.push\<close> of the loop body: the entry of the \<^verbatim>\<open>try\<close> branch and
  the entry of the \<^verbatim>\<open>catch\<close> branch.
\<close>

definition targetRepository :: "Target \<Rightarrow> Repository" where
  "targetRepository target =
     \<lparr>repo_id = None,
      repo_name = tgt_repo target,
      full_name = tgt_owner target @ ''/'' @ tgt_repo target,
      owner_login = tgt_owner target,
      is_private = None,
      default_branch = None,
      permissions = None\<rparr>"

fun resultOf :: "Target \<Rightarrow> outcome \<Rightarrow> ApplyResult" where
  "resultOf target Returned =
     \<lparr>res_repo = targetRepository target, res_branch = tgt_branch target,
      res_success = True, res_error = None\<rparr>"
| "resultOf target (ThrewError message) =
     \<lparr>res_repo = targetRepository target, res_branch = tgt_branch target,
      res_success = False, res_error = Some message\<rparr>"
| "resultOf target ThrewOther =
     \<lparr>res_repo = targetRepository target, res_branch = tgt_branch target,
      res_success = False, res_error = Some ''Unknown error''\<rparr>"

text \<open>
  The loop of \<^verbatim>\<open>applyProtectionToMultiple\<close>. The remote call is the parameter
  \<open>applyOne\<close>: it gets the target, the protection and the state of the world (the remote
  side, the network) and gives the call's outcome and the world after it, so an apply
  function may depend on every call made before.
\<close>

fun applyLoop ::
  "(Target \<Rightarrow> 'p \<Rightarrow> 'w \<Rightarrow> outcome \<times> 'w) \<Rightarrow> 'p \<Rightarrow> Target list \<Rightarrow> ApplyResult list \<Rightarrow> 'w
     \<Rightarrow> ApplyResult list \<times> 'w" where
  "applyLoop applyOne protection [] results w = (results, w)"
| "applyLoop applyOne protection (target # targets) results w =
     (case applyOne target protection w of
        (out, w') \<Rightarrow>
          applyLoop applyOne protection targets (results @ [resultOf target out]) w')"

definition applyProtectionToMultiple ::
  "(Target \<Rightarrow> 'p \<Rightarrow> 'w \<Rightarrow> outcome \<times> 'w) \<Rightarrow> Target list \<Rightarrow> 'p \<Rightarrow> 'w
     \<Rightarrow> ApplyResult list \<times> 'w" where
  "applyProtectionToMultiple applyOne targets protection w =
     applyLoop applyOne protection targets [] w"

text \<open>
  The counters \<^verbatim>\<open>success\<close> and \<^verbatim>\<open>failed\<close> that \<^verbatim>\<open>renderResults\<close> of the preview
  pane derives from the result list; the total it prints is the list's length.
\<close>

definition countResults :: "ApplyResult list \<Rightarrow> nat \<times> nat" where
  "countResults results =
     fold (\<lambda>result (success, failed).
             if res_success result then (success + 1, failed) else (success, failed + 1))
       results (0, 0)"


section \<open>components/ProtectionEditor.ts: the field editor\<close>

text \<open>
  An \<^verbatim>\<open>EditorField\<close> without its label (display text only). \<open>fld_type\<close> is the
  source's \<^verbatim>\<open>type\<close>: \<^verbatim>\<open>'boolean' | 'number' | 'string' | 'workflow-select'\<close>.
\<close>

datatype FieldType = TBoolean | TNumber | TString | TWorkflowSelect

datatype FieldValue = VBool bool | VNum int | VStr string

record EditorField =
  fld_key :: string
  fld_type :: FieldType
  fld_value :: FieldValue
  fld_parent :: "string option"

record Workflow =
  wf_id :: int
  wf_name :: string
  wf_path :: string
  wf_state :: string

record WorkflowItem =
  workflow :: Workflow
  selected :: bool

text \<open>
  The editor's \<^verbatim>\<open>state\<close> without the rendered rows and inputs. An index is a
  JavaScript number: \<open>None\<close> is \<^verbatim>\<open>NaN\<close>, which \<^verbatim>\<open>x % 0\<close> yields.
  The protection is a value: the spread of \<^verbatim>\<open>setProtection\<close> copies the top-level
  properties, and that the nested records stay shared with the object it was seeded
  from is not modelled.
  \<open>st_fields\<close> is \<^verbatim>\<open>state.fields\<close>, \<open>showWorkflowModalFlag\<close> is
  \<^verbatim>\<open>state.showWorkflowModal\<close>.
\<close>

record EditorState =
  protection :: BranchProtection
  st_fields :: "EditorField list"
  focusIndex :: "nat option"
  workflows :: "Workflow list"
  repoInfo :: "(string \<times> string) option"
  showWorkflowModalFlag :: bool
  workflowItems :: "WorkflowItem list"
  workflowFocusIndex :: "nat option"

text \<open>
  The record literals that enable a substructure:
  \<^verbatim>\<open>{dismiss_stale_reviews: false, require_code_owner_reviews: false,
  required_approving_review_count: 1}\<close> and \<^verbatim>\<open>{strict: false, contexts: []}\<close>.
\<close>

definition defaultReviews :: RequiredPullRequestReviews where
  "defaultReviews =
     \<lparr>dismiss_stale_reviews = False, require_code_owner_reviews = False,
      required_approving_review_count = 1,
      dismissal_restrictions = Absent, bypass_pull_request_allowances = Absent\<rparr>"

definition defaultStatusChecks :: RequiredStatusChecks where
  "defaultStatusChecks = \<lparr>strict = False, contexts = [], checks = None\<rparr>"

definition createDefaultProtection :: BranchProtection where
  "createDefaultProtection =
     \<lparr>required_pull_request_reviews = Val defaultReviews,
      required_status_checks = Null,
      enforce_admins = Some False,
      required_linear_history = Some False,
      allow_force_pushes = Some False,
      allow_deletions = Some False,
      block_creations = Some False,
      required_conversation_resolution = Some True,
      restrictions = Null,
      url = None,
      required_signatures = Absent,
      lock_branch = None\<rparr>"

text \<open>\<^verbatim>\<open>a ?? b\<close> on an optional property.\<close>

definition orDefault :: "'a option \<Rightarrow> 'a \<Rightarrow> 'a" where
  "orDefault a b = (case a of None \<Rightarrow> b | Some v \<Rightarrow> v)"

definition boolField :: "string \<Rightarrow> bool \<Rightarrow> string option \<Rightarrow> EditorField" where
  "boolField k b par = \<lparr>fld_key = k, fld_type = TBoolean, fld_value = VBool b, fld_parent = par\<rparr>"

text \<open>
  \<^verbatim>\<open>buildFields\<close>, from the protection and the known workflows. The nested
  properties have their declared types, so their \<^verbatim>\<open>??\<close> defaults never apply and
  \<^verbatim>\<open>rsc.contexts?.join(', ') ?? ''\<close> is the join.
\<close>

definition buildFields :: "BranchProtection \<Rightarrow> Workflow list \<Rightarrow> EditorField list" where
  "buildFields p wfs =
     [boolField ''enforce_admins'' (orDefault (enforce_admins p) False) None,
      boolField ''required_linear_history'' (orDefault (required_linear_history p) False) None,
      boolField ''allow_force_pushes'' (orDefault (allow_force_pushes p) False) None,
      boolField ''allow_deletions'' (orDefault (allow_deletions p) False) None,
      boolField ''block_creations'' (orDefault (block_creations p) False) None,
      boolField ''required_conversation_resolution''
        (orDefault (required_conversation_resolution p) True) None]
     @ (case required_pull_request_reviews p of
          Val rpr \<Rightarrow>
            [boolField ''rpr_enabled'' True (Some ''required_pull_request_reviews''),
             boolField ''dismiss_stale_reviews'' (dismiss_stale_reviews rpr)
               (Some ''required_pull_request_reviews''),
             boolField ''require_code_owner_reviews'' (require_code_owner_reviews rpr)
               (Some ''required_pull_request_reviews''),
             \<lparr>fld_key = ''required_approving_review_count'', fld_type = TNumber,
              fld_value = VNum (required_approving_review_count rpr),
              fld_parent = Some ''required_pull_request_reviews''\<rparr>]
        | _ \<Rightarrow> [boolField ''rpr_enabled'' False (Some ''required_pull_request_reviews'')])
     @ (case required_status_checks p of
          Val rsc \<Rightarrow>
            [boolField ''rsc_enabled'' True (Some ''required_status_checks''),
             boolField ''strict'' (strict rsc) (Some ''required_status_checks''),
             \<lparr>fld_key = ''contexts'', fld_type = TString,
              fld_value = VStr (joinWith '', '' (contexts rsc)),
              fld_parent = Some ''required_status_checks''\<rparr>]
            @ (if wfs \<noteq> []
               then [\<lparr>fld_key = ''add_workflow'', fld_type = TWorkflowSelect,
                      fld_value = VStr [], fld_parent = Some ''required_status_checks''\<rparr>]
               else [])
        | _ \<Rightarrow> [boolField ''rsc_enabled'' False (Some ''required_status_checks'')])
     @ [boolField ''divider_apply'' False None, boolField ''apply'' False None]"

text \<open>\<^verbatim>\<open>renderFields\<close>: the field list is rebuilt from the protection.\<close>

definition renderFields :: "EditorState \<Rightarrow> EditorState" where
  "renderFields s = s\<lparr>st_fields := buildFields (protection s) (workflows s)\<rparr>"


subsection \<open>Text input\<close>

text \<open>
  A string is the list of its characters; the character type has the code points below
  256, so the white space that \<^verbatim>\<open>trim\<close> and \<^verbatim>\<open>parseInt\<close> skip is tab, line feed,
  vertical tab, form feed, carriage return, space and the no-break space.
\<close>

definition isWhiteSpace :: "char \<Rightarrow> bool" where
  "isWhiteSpace c =
     (c \<in> set [CHR 0x09, CHR 0x0A, CHR 0x0B, CHR 0x0C, CHR 0x0D, CHR 0x20, CHR 0xA0])"

definition isDigit :: "char \<Rightarrow> bool" where
  "isDigit c = (c \<in> set ''0123456789'')"

definition digitValue :: "char \<Rightarrow> int" where
  "digitValue c = int (of_char c) - 48"

definition digitsValue :: "string \<Rightarrow> int" where
  "digitsValue ds = foldl (\<lambda>acc c. 10 * acc + digitValue c) 0 ds"

text \<open>
  \<^verbatim>\<open>parseInt(val, 10)\<close>: leading white space is skipped, one sign is read, then the
  longest run of decimal digits; what follows the digits is ignored. With no digit the
  result is \<^verbatim>\<open>NaN\<close>, which is \<open>None\<close>.
\<close>

definition parseInt :: "string \<Rightarrow> int option" where
  "parseInt val =
     (let t = dropWhile isWhiteSpace val;
          negative = (t \<noteq> [] \<and> hd t = CHR ''-'');
          u = (if t \<noteq> [] \<and> (hd t = CHR ''-'' \<or> hd t = CHR ''+'') then tl t else t);
          ds = takeWhile isDigit u
      in if ds = [] then None
         else Some (if negative then - digitsValue ds else digitsValue ds))"

text \<open>\<^verbatim>\<open>s.split(',')\<close>, \<^verbatim>\<open>s.trim()\<close> and the text-to-list conversion of the contexts field.\<close>

fun splitComma :: "string \<Rightarrow> string list" where
  "splitComma [] = [[]]"
| "splitComma (c # cs) =
     (if c = CHR '','' then [] # splitComma cs
      else (case splitComma cs of
              [] \<Rightarrow> [[c]]
            | x # xs \<Rightarrow> (c # x) # xs))"

definition trim :: "string \<Rightarrow> string" where
  "trim s = rev (dropWhile isWhiteSpace (rev (dropWhile isWhiteSpace s)))"

definition parseContexts :: "string \<Rightarrow> string list" where
  "parseContexts v = filter (\<lambda>x. x \<noteq> []) (map trim (splitComma v))"

subsection \<open>Writing a field back\<close>

text \<open>The truthiness of a field value, and \<^verbatim>\<open>!field.value\<close>.\<close>

fun truthyValue :: "FieldValue \<Rightarrow> bool" where
  "truthyValue (VBool b) = b"
| "truthyValue (VNum n) = (n \<noteq> 0)"
| "truthyValue (VStr v) = (v \<noteq> [])"

definition setReviews :: "RequiredPullRequestReviews nullable \<Rightarrow> EditorState \<Rightarrow> EditorState" where
  "setReviews r s = s\<lparr>protection := (protection s)\<lparr>required_pull_request_reviews := r\<rparr>\<rparr>"

definition setStatusChecks :: "RequiredStatusChecks nullable \<Rightarrow> EditorState \<Rightarrow> EditorState" where
  "setStatusChecks r s = s\<lparr>protection := (protection s)\<lparr>required_status_checks := r\<rparr>\<rparr>"

text \<open>
  \<^verbatim>\<open>updateProtectionFromField(field)\<close>. The casts \<^verbatim>\<open>field.value as boolean\<close>,
  \<^verbatim>\<open>as number\<close> and \<^verbatim>\<open>as string\<close> take the value of that type; \<^verbatim>\<open>buildFields\<close>
  gives every key a value of its own type, and for a value of another type, which the
  typed record cannot hold, the model leaves the protection as it is.
\<close>

definition updateProtectionFromField :: "EditorField \<Rightarrow> EditorState \<Rightarrow> EditorState" where
  "updateProtectionFromField field s =
     (let p = protection s; k = fld_key field; v = fld_value field in
      if fld_parent field = Some ''required_pull_request_reviews'' then
        if k = ''rpr_enabled'' then
          renderFields (setReviews (if truthyValue v then Val defaultReviews else Null) s)
        else
          (case required_pull_request_reviews p of
             Val rpr \<Rightarrow>
               if k = ''dismiss_stale_reviews'' then
                 (case v of VBool b \<Rightarrow> setReviews (Val (rpr\<lparr>dismiss_stale_reviews := b\<rparr>)) s
                  | _ \<Rightarrow> s)
               else if k = ''require_code_owner_reviews'' then
                 (case v of VBool b \<Rightarrow> setReviews (Val (rpr\<lparr>require_code_owner_reviews := b\<rparr>)) s
                  | _ \<Rightarrow> s)
               else if k = ''required_approving_review_count'' then
                 (case v of
                    VNum n \<Rightarrow> setReviews (Val (rpr\<lparr>required_approving_review_count := n\<rparr>)) s
                  | _ \<Rightarrow> s)
               else s
           | _ \<Rightarrow> s)
      else if fld_parent field = Some ''required_status_checks'' then
        if k = ''rsc_enabled'' then
          renderFields (setStatusChecks (if truthyValue v then Val defaultStatusChecks else Null) s)
        else
          (case required_status_checks p of
             Val rsc \<Rightarrow>
               if k = ''strict'' then
                 (case v of VBool b \<Rightarrow> setStatusChecks (Val (rsc\<lparr>strict := b\<rparr>)) s | _ \<Rightarrow> s)
               else if k = ''contexts'' then
                 (case v of
                    VStr t \<Rightarrow> setStatusChecks (Val (rsc\<lparr>contexts := parseContexts t\<rparr>)) s
                  | _ \<Rightarrow> s)
               else s
           | _ \<Rightarrow> s)
      else
        (case v of
           VBool b \<Rightarrow>
             if k = ''enforce_admins'' then s\<lparr>protection := p\<lparr>enforce_admins := Some b\<rparr>\<rparr>
             else if k = ''required_linear_history''
               then s\<lparr>protection := p\<lparr>required_linear_history := Some b\<rparr>\<rparr>
             else if k = ''allow_force_pushes''
               then s\<lparr>protection := p\<lparr>allow_force_pushes := Some b\<rparr>\<rparr>
             else if k = ''allow_deletions'' then s\<lparr>protection := p\<lparr>allow_deletions := Some b\<rparr>\<rparr>
             else if k = ''block_creations'' then s\<lparr>protection := p\<lparr>block_creations := Some b\<rparr>\<rparr>
             else if k = ''required_conversation_resolution''
               then s\<lparr>protection := p\<lparr>required_conversation_resolution := Some b\<rparr>\<rparr>
             else s
         | _ \<Rightarrow> s))"


subsection \<open>The workflow picker\<close>

text \<open>
  \<^verbatim>\<open>addWorkflowChecks(workflowNames)\<close>: a missing \<open>required_status_checks\<close> is created,
  then each name that the contexts do not include yet is pushed.
\<close>

definition pushNew :: "string \<Rightarrow> string list \<Rightarrow> string list" where
  "pushNew name cs = (if name \<in> set cs then cs else cs @ [name])"

definition addWorkflowChecks :: "string list \<Rightarrow> EditorState \<Rightarrow> EditorState" where
  "addWorkflowChecks workflowNames s =
     (let rsc = (case required_status_checks (protection s) of
                   Val r \<Rightarrow> r
                 | _ \<Rightarrow> defaultStatusChecks)
      in renderFields
           (setStatusChecks (Val (rsc\<lparr>contexts := fold pushNew workflowNames (contexts rsc)\<rparr>)) s))"

text \<open>
  \<^verbatim>\<open>showWorkflowModal()\<close>: one item per known workflow, selected when
  \<^verbatim>\<open>required_status_checks?.contexts?.includes(w.name) ?? false\<close>.
\<close>

definition alreadyAdded :: "BranchProtection \<Rightarrow> Workflow \<Rightarrow> bool" where
  "alreadyAdded p w =
     (case required_status_checks p of
        Val rsc \<Rightarrow> wf_name w \<in> set (contexts rsc)
      | _ \<Rightarrow> False)"

definition showWorkflowModal :: "EditorState \<Rightarrow> EditorState" where
  "showWorkflowModal s =
     (if workflows s = [] then s
      else s\<lparr>workflowItems :=
                map (\<lambda>w. \<lparr>workflow = w, selected = alreadyAdded (protection s) w\<rparr>) (workflows s),
              workflowFocusIndex := Some 0,
              showWorkflowModalFlag := True\<rparr>)"

subsection \<open>Keys and input events\<close>

record Key =
  key_name :: string
  key_shift :: bool
  key_ctrl :: bool

text \<open>The callback a key triggers: \<^verbatim>\<open>onSave(state.protection)\<close>, \<^verbatim>\<open>onCancel()\<close> or none.\<close>

datatype callback = NoCallback | OnSave BranchProtection | OnCancel

text \<open>
  \<^verbatim>\<open>(i + 1) % len\<close> and \<^verbatim>\<open>(i - 1 + len) % len\<close> on an index that is not negative,
  and \<^verbatim>\<open>xs[i]\<close>, which is \<^verbatim>\<open>undefined\<close> out of range.
\<close>

definition indexNext :: "nat option \<Rightarrow> nat \<Rightarrow> nat option" where
  "indexNext i len =
     (case i of None \<Rightarrow> None | Some n \<Rightarrow> if len = 0 then None else Some ((n + 1) mod len))"

definition indexPrev :: "nat option \<Rightarrow> nat \<Rightarrow> nat option" where
  "indexPrev i len =
     (case i of None \<Rightarrow> None | Some n \<Rightarrow> if len = 0 then None else Some ((n + len - 1) mod len))"

definition itemAt :: "'a list \<Rightarrow> nat option \<Rightarrow> 'a option" where
  "itemAt xs i =
     (case i of None \<Rightarrow> None | Some n \<Rightarrow> if n < length xs then Some (xs ! n) else None)"

definition selectedNames :: "WorkflowItem list \<Rightarrow> string list" where
  "selectedNames items = map (\<lambda>w. wf_name (workflow w)) (filter selected items)"

text \<open>The branch of \<^verbatim>\<open>handleKey\<close> taken while the workflow picker is shown.\<close>

definition handleModalKey :: "Key \<Rightarrow> EditorState \<Rightarrow> EditorState" where
  "handleModalKey key s =
     (if key_name key = ''escape'' then renderFields (s\<lparr>showWorkflowModalFlag := False\<rparr>)
      else if key_name key = ''up'' \<or> key_name key = ''k'' then
        s\<lparr>workflowFocusIndex := indexPrev (workflowFocusIndex s) (length (workflowItems s))\<rparr>
      else if key_name key = ''down'' \<or> key_name key = ''j'' then
        s\<lparr>workflowFocusIndex := indexNext (workflowFocusIndex s) (length (workflowItems s))\<rparr>
      else if key_name key = ''space'' then
        (case workflowFocusIndex s of
           None \<Rightarrow> s
         | Some n \<Rightarrow>
             if n < length (workflowItems s)
             then s\<lparr>workflowItems :=
                      (workflowItems s)
                        [n := (workflowItems s ! n)\<lparr>selected := \<not> selected (workflowItems s ! n)\<rparr>]\<rparr>
             else s)
      else if key_name key = ''return'' \<or> key_name key = ''enter'' then
        (let s' = s\<lparr>showWorkflowModalFlag := False\<rparr>;
             names = selectedNames (workflowItems s)
         in if length names > 0 then addWorkflowChecks names s' else renderFields s')
      else s)"

text \<open>
  \<^verbatim>\<open>handleKey(key)\<close>: the state after the key and the callback it made. Enter on a
  boolean field negates the field's value, writes it back and renders.
\<close>

definition handleKey :: "Key \<Rightarrow> EditorState \<Rightarrow> EditorState \<times> callback" where
  "handleKey key s =
     (if showWorkflowModalFlag s then (handleModalKey key s, NoCallback)
      else if key_ctrl key \<and> key_name key = ''a'' then (s, OnSave (protection s))
      else if key_name key = ''tab'' then
        (renderFields
           (s\<lparr>focusIndex :=
                (if key_shift key then indexPrev (focusIndex s) (length (st_fields s))
                 else indexNext (focusIndex s) (length (st_fields s)))\<rparr>),
         NoCallback)
      else if key_name key = ''return'' \<or> key_name key = ''enter'' then
        (case itemAt (st_fields s) (focusIndex s) of
           None \<Rightarrow> (s, NoCallback)
         | Some field \<Rightarrow>
             if fld_key field = ''apply'' then (s, OnSave (protection s))
             else if fld_type field = TBoolean then
               (renderFields
                  (updateProtectionFromField
                     (field\<lparr>fld_value := VBool (\<not> truthyValue (fld_value field))\<rparr>) s),
                NoCallback)
             else if fld_type field = TWorkflowSelect then (showWorkflowModal s, NoCallback)
             else (s, NoCallback))
      else if key_name key = ''escape'' then (s, OnCancel)
      else if key_name key = ''up'' \<or> key_name key = ''k'' then
        (renderFields (s\<lparr>focusIndex := indexPrev (focusIndex s) (length (st_fields s))\<rparr>),
         NoCallback)
      else if key_name key = ''down'' \<or> key_name key = ''j'' then
        (renderFields (s\<lparr>focusIndex := indexNext (focusIndex s) (length (st_fields s))\<rparr>),
         NoCallback)
      else (s, NoCallback))"

text \<open>
  The \<^verbatim>\<open>INPUT\<close> event of the input rendered in row \<open>i\<close>, with the input's text. A
  number field and a string field have an input; the divider, the apply button, a boolean
  field and the workflow field have none. The handler of a number field stores the parsed
  number only if it is a number and not negative; it does not render.
\<close>

definition inputEvent :: "nat \<Rightarrow> string \<Rightarrow> EditorState \<Rightarrow> EditorState" where
  "inputEvent i val s =
     (case itemAt (st_fields s) (Some i) of
        None \<Rightarrow> s
      | Some field \<Rightarrow>
          if fld_key field = ''divider_apply'' \<or> fld_key field = ''apply'' then s
          else
            (case fld_type field of
               TBoolean \<Rightarrow> s
             | TWorkflowSelect \<Rightarrow> s
             | TNumber \<Rightarrow>
                 (case parseInt val of
                    None \<Rightarrow> s
                  | Some num \<Rightarrow>
                      if num \<ge> 0
                      then updateProtectionFromField (field\<lparr>fld_value := VNum num\<rparr>)
                             (s\<lparr>st_fields := (st_fields s)[i := field\<lparr>fld_value := VNum num\<rparr>]\<rparr>)
                      else s)
             | TString \<Rightarrow>
                 updateProtectionFromField (field\<lparr>fld_value := VStr val\<rparr>)
                   (s\<lparr>st_fields := (st_fields s)[i := field\<lparr>fld_value := VStr val\<rparr>]\<rparr>)))"

subsection \<open>The editor's methods\<close>

text \<open>
  \<^verbatim>\<open>setProtection(protection)\<close>: the spread \<^verbatim>\<open>{ ...protection }\<close> copies every
  property of the object it is given.
\<close>

definition setProtection :: "BranchProtection option \<Rightarrow> EditorState \<Rightarrow> EditorState" where
  "setProtection p s =
     renderFields
       (s\<lparr>protection := (case p of Some live \<Rightarrow> live | None \<Rightarrow> createDefaultProtection),
          focusIndex := Some 0\<rparr>)"

definition getProtection :: "EditorState \<Rightarrow> BranchProtection" where
  "getProtection s = protection s"

text \<open>
  \<^verbatim>\<open>setRepoInfo(owner, repo)\<close>, with the list that \<^verbatim>\<open>getRepoWorkflows\<close> resolved to
  (empty on any failure).
\<close>

definition setRepoInfo :: "string \<Rightarrow> string \<Rightarrow> Workflow list \<Rightarrow> EditorState \<Rightarrow> EditorState" where
  "setRepoInfo owner repo wfs s = renderFields (s\<lparr>repoInfo := Some (owner, repo), workflows := wfs\<rparr>)"

text \<open>The state of a new editor: \<^verbatim>\<open>createProtectionEditor\<close> renders once.\<close>

definition createProtectionEditor :: EditorState where
  "createProtectionEditor =
     renderFields
       \<lparr>protection = createDefaultProtection, st_fields = [], focusIndex = Some 0,
        workflows = [], repoInfo = None, showWorkflowModalFlag = False,
        workflowItems = [], workflowFocusIndex = Some 0\<rparr>"

text \<open>
  What can happen to a seeded editor: a key, an input event, the workflows arriving. A run
  collects the protections handed to \<^verbatim>\<open>onSave\<close>.
\<close>

datatype editorEvent =
    KeyPress Key
  | InputText nat string
  | WorkflowsLoaded string string "Workflow list"

fun editorStep :: "editorEvent \<Rightarrow> EditorState \<Rightarrow> EditorState \<times> callback" where
  "editorStep (KeyPress key) s = handleKey key s"
| "editorStep (InputText i val) s = (inputEvent i val s, NoCallback)"
| "editorStep (WorkflowsLoaded owner repo wfs) s = (setRepoInfo owner repo wfs s, NoCallback)"

fun saved :: "callback \<Rightarrow> BranchProtection list" where
  "saved (OnSave p) = [p]"
| "saved c = []"

fun runEditor :: "editorEvent list \<Rightarrow> EditorState \<Rightarrow> BranchProtection list" where
  "runEditor [] s = []"
| "runEditor (e # es) s =
     (case editorStep e s of (s', c) \<Rightarrow> saved c @ runEditor es s')"


section \<open>app.ts: the screen flow\<close>

datatype Screen = Orgs | Repos | Branches | Editor | Templates | Preview

text \<open>The \<^verbatim>\<open>state\<close> object of \<^verbatim>\<open>runApp\<close>.\<close>

record AppState =
  screen :: Screen
  org :: "Organization option"
  repos :: "Repository list"
  selectedRepos :: "Repository list"
  branch :: "string option"
  currentProtection :: "BranchProtection option"
  proposedProtection :: "BranchProtection option"
  results :: "ApplyResult list"
  isLoading :: bool
  error :: "string option"

text \<open>
  How an awaited fetch ends: it resolves to a value, or it rejects with an \<^verbatim>\<open>Error\<close>
  or with a value that is no \<^verbatim>\<open>Error\<close>. The fetch functions are parameters of the
  transitions.
\<close>

datatype 'a fetched = Resolved 'a | RejectedError string | RejectedOther

definition showLoading :: "AppState \<Rightarrow> AppState" where
  "showLoading s = s\<lparr>isLoading := True\<rparr>"

definition hideLoading :: "AppState \<Rightarrow> AppState" where
  "hideLoading s = s\<lparr>isLoading := False\<rparr>"

definition showError :: "string \<Rightarrow> AppState \<Rightarrow> AppState" where
  "showError message s = s\<lparr>error := Some message\<rparr>"

text \<open>
  The \<^verbatim>\<open>catch\<close> block shared by the screens:
  \<^verbatim>\<open>hideLoading(); showError(err instanceof Error ? err.message : fallback)\<close>.
\<close>

fun failed :: "'a fetched \<Rightarrow> string \<Rightarrow> AppState \<Rightarrow> AppState" where
  "failed (RejectedError message) fallback s = showError message (hideLoading s)"
| "failed r fallback s = showError fallback (hideLoading s)"

definition showOrgSelector :: "Organization list fetched \<Rightarrow> AppState \<Rightarrow> AppState" where
  "showOrgSelector getOrganizations s =
     (let s1 = showLoading (s\<lparr>screen := Orgs\<rparr>) in
      case getOrganizations of
        Resolved orgs \<Rightarrow> hideLoading s1
      | r \<Rightarrow> failed r ''Failed to load organizations'' s1)"

definition showRepoSelector :: "(string \<Rightarrow> Repository list fetched) \<Rightarrow> AppState \<Rightarrow> AppState" where
  "showRepoSelector getOrgRepos s =
     (case org s of
        None \<Rightarrow> s
      | Some selected_org \<Rightarrow>
          (let s1 = showLoading (s\<lparr>screen := Repos\<rparr>) in
           case getOrgRepos (org_login selected_org) of
             Resolved rs \<Rightarrow> hideLoading (s1\<lparr>repos := rs\<rparr>)
           | r \<Rightarrow> failed r ''Failed to load repositories'' s1))"

text \<open>The callback of the organization selector: \<^verbatim>\<open>state.org = org; showRepoSelector()\<close>.\<close>

definition orgSelected ::
  "Organization \<Rightarrow> (string \<Rightarrow> Repository list fetched) \<Rightarrow> AppState \<Rightarrow> AppState" where
  "orgSelected new_org getOrgRepos s = showRepoSelector getOrgRepos (s\<lparr>org := Some new_org\<rparr>)"

definition showBranchSelector ::
  "(string \<Rightarrow> string \<Rightarrow> Branch list fetched) \<Rightarrow> AppState \<Rightarrow> AppState" where
  "showBranchSelector getRepoBranches s =
     (case selectedRepos s of
        [] \<Rightarrow> s
      | repo # rest \<Rightarrow>
          (let s1 = showLoading (s\<lparr>screen := Branches\<rparr>) in
           case getRepoBranches (owner_login repo) (repo_name repo) of
             Resolved branches \<Rightarrow> hideLoading s1
           | r \<Rightarrow> failed r ''Failed to load branches'' s1))"

text \<open>
  The callback of the repository selector:
  \<^verbatim>\<open>state.selectedRepos = repos; showBranchSelector()\<close>.
\<close>

definition reposSelected ::
  "Repository list \<Rightarrow> (string \<Rightarrow> string \<Rightarrow> Branch list fetched) \<Rightarrow> AppState \<Rightarrow> AppState" where
  "reposSelected rs getRepoBranches s = showBranchSelector getRepoBranches (s\<lparr>selectedRepos := rs\<rparr>)"

text \<open>
  \<^verbatim>\<open>showEditor()\<close>: the screen changes and a new editor is seeded with
  \<^verbatim>\<open>container.setProtection(state.currentProtection)\<close>. The second component is the
  editor's state.
\<close>

definition showEditor :: "AppState \<Rightarrow> AppState \<times> EditorState" where
  "showEditor s =
     (s\<lparr>screen := Editor\<rparr>, setProtection (currentProtection s) createProtectionEditor)"

text \<open>
  The callback of the branch selector. \<open>repo\<close> is the first selected repository, bound
  when the selector was shown. A failed fetch leaves the screen and the stored
  protection as they are.
\<close>

definition branchSelected ::
  "Repository \<Rightarrow> string \<Rightarrow> (string \<Rightarrow> string \<Rightarrow> string \<Rightarrow> BranchProtection option fetched)
     \<Rightarrow> AppState \<Rightarrow> AppState" where
  "branchSelected repo b getBranchProtection s =
     (let s1 = showLoading (s\<lparr>branch := Some b\<rparr>) in
      case getBranchProtection (owner_login repo) (repo_name repo) b of
        Resolved live \<Rightarrow> fst (showEditor (hideLoading (s1\<lparr>currentProtection := live\<rparr>)))
      | r \<Rightarrow> failed r ''Failed to load protection'' s1)"

text \<open>
  The editor's save callback:
  \<^verbatim>\<open>state.proposedProtection = protection; showPreview()\<close>.
\<close>

definition editorSaved :: "BranchProtection \<Rightarrow> AppState \<Rightarrow> AppState" where
  "editorSaved p s = s\<lparr>proposedProtection := Some p, screen := Preview\<rparr>"



section \<open>Observations\<close>

text \<open>The contexts of a protection; none when it has no status checks.\<close>

definition currentContexts :: "BranchProtection \<Rightarrow> string list" where
  "currentContexts p = (case required_status_checks p of Val rsc \<Rightarrow> contexts rsc | _ \<Rightarrow> [])"

text \<open>The three properties that only a live protection declares.\<close>

definition liveOnly :: "BranchProtection \<Rightarrow> string option \<times> bool nullable \<times> bool option" where
  "liveOnly p = (url p, required_signatures p, lock_branch p)"


text \<open>The editor's state after a list of events.\<close>

definition editorAfter :: "editorEvent list \<Rightarrow> EditorState \<Rightarrow> EditorState" where
  "editorAfter es s = fold (\<lambda>e t. fst (editorStep e t)) es s"


section \<open>Example values\<close>

text \<open>
  The records of the diff scenario: a live record whose reviews are \<^verbatim>\<open>null\<close>, the same
  record without the reviews property, and the proposed record.
\<close>

definition scenarioLiveNull :: jsobj where
  "scenarioLiveNull =
     [(''enforce_admins'', JBool False), (''required_pull_request_reviews'', JNull)]"

definition scenarioLiveAbsent :: jsobj where
  "scenarioLiveAbsent = [(''enforce_admins'', JBool False)]"

definition scenarioProposed :: jsobj where
  "scenarioProposed =
     [(''enforce_admins'', JBool True),
      (''required_pull_request_reviews'',
         JObj [(''dismiss_stale_reviews'', JBool False),
               (''require_code_owner_reviews'', JBool False),
               (''required_approving_review_count'', JNum 1)])]"

text \<open>
  An apply function whose second call fails, whatever the target: the world is the number
  of calls made so far.
\<close>

definition secondCallFails :: "Target \<Rightarrow> unit \<Rightarrow> nat \<Rightarrow> outcome \<times> nat" where
  "secondCallFails target p calls =
     (if calls = 1 then ThrewError ''HTTP 404'' else Returned, calls + 1)"

definition threeTargets :: "Target list" where
  "threeTargets =
     [\<lparr>tgt_owner = ''acme'', tgt_repo = ''api'', tgt_branch = ''main''\<rparr>,
      \<lparr>tgt_owner = ''acme'', tgt_repo = ''web'', tgt_branch = ''main''\<rparr>,
      \<lparr>tgt_owner = ''acme'', tgt_repo = ''docs'', tgt_branch = ''main''\<rparr>]"


text \<open>
  An application state in which every selection is made: an organization, one repository,
  a branch, a live and a proposed protection, and one apply result.
\<close>

definition acmeApi :: Repository where
  "acmeApi =
     \<lparr>repo_id = Some 1, repo_name = ''api'', full_name = ''acme/api'', owner_login = ''acme'',
      is_private = Some False, default_branch = Some ''main'', permissions = None\<rparr>"

definition busyState :: AppState where
  "busyState =
     \<lparr>screen = Preview,
      org = Some \<lparr>org_login = ''acme'', org_id = Some 7, avatar_url = None,
                 org_description = None\<rparr>,
      repos = [acmeApi],
      selectedRepos = [acmeApi],
      branch = Some ''main'',
      currentProtection = Some createDefaultProtection,
      proposedProtection = Some createDefaultProtection,
      results = [\<lparr>res_repo = acmeApi, res_branch = ''main'', res_success = True,
                  res_error = None\<rparr>],
      isLoading = False,
      error = None\<rparr>"

definition otherOrg :: Organization where
  "otherOrg = \<lparr>org_login = ''globex'', org_id = Some 8, avatar_url = None, org_description = None\<rparr>"

text \<open>A live protection as \<^verbatim>\<open>getBranchProtection\<close> returns it, with its url.\<close>

definition liveWithUrl :: BranchProtection where
  "liveWithUrl =
     createDefaultProtection
       \<lparr>url := Some ''https://api.github.com/repos/acme/api/branches/main/protection'',
        required_signatures := Val False,
        lock_branch := Some False\<rparr>"

definition ctrlA :: Key where
  "ctrlA = \<lparr>key_name = ''a'', key_shift = False, key_ctrl = True\<rparr>"

definition plainKey :: "string \<Rightarrow> Key" where
  "plainKey n = \<lparr>key_name = n, key_shift = False, key_ctrl = False\<rparr>"

text \<open>
  The workflow scenario: status checks with the context ci/build, and the two external
  checks ci/build and ci/test.
\<close>

definition withBuildContext :: BranchProtection where
  "withBuildContext =
     createDefaultProtection
       \<lparr>required_status_checks := Val \<lparr>strict = False, contexts = [''ci/build''], checks = None\<rparr>\<rparr>"

definition twoChecks :: "Workflow list" where
  "twoChecks =
     [\<lparr>wf_id = 1, wf_name = ''ci/build'', wf_path = ''.github/workflows/build.yml'',
       wf_state = ''active''\<rparr>,
      \<lparr>wf_id = 2, wf_name = ''ci/test'', wf_path = ''.github/workflows/test.yml'',
       wf_state = ''active''\<rparr>]"


text \<open>
  The editor seeded with that protection and told of the two checks; the same editor after
  the focus is moved down to the workflow field (row 13) and Enter opens the picker; and
  after one more step down and a press of the space bar, which selects ci/test.
\<close>

definition pickerSeed :: EditorState where
  "pickerSeed =
     setRepoInfo ''acme'' ''api'' twoChecks
       (setProtection (Some withBuildContext) createProtectionEditor)"

definition pickerOpened :: EditorState where
  "pickerOpened =
     editorAfter (replicate 13 (KeyPress (plainKey ''down'')) @ [KeyPress (plainKey ''return'')])
       pickerSeed"

definition pickerToggled :: EditorState where
  "pickerToggled =
     editorAfter [KeyPress (plainKey ''down''), KeyPress (plainKey ''space'')] pickerOpened"


section \<open>Properties\<close>

subsection \<open>Reading properties\<close>

lemma getProp_Nil: "getProp [] k = JUndefined"
  by (simp add: getProp_def)

lemma getProp_Cons: "getProp ((k', v) # obj) k = (if k = k' then v else getProp obj k)"
  by (simp add: getProp_def)

lemma getProp_cleanInput:
  "getProp (cleanInput c) ''required_pull_request_reviews'' =
     nullish (getProp c ''required_pull_request_reviews'') JNull"
  "getProp (cleanInput c) ''required_status_checks'' =
     nullish (getProp c ''required_status_checks'') JNull"
  "getProp (cleanInput c) ''enforce_admins'' = nullish (getProp c ''enforce_admins'') (JBool False)"
  "getProp (cleanInput c) ''required_linear_history'' =
     nullish (getProp c ''required_linear_history'') (JBool False)"
  "getProp (cleanInput c) ''allow_force_pushes'' =
     nullish (getProp c ''allow_force_pushes'') (JBool False)"
  "getProp (cleanInput c) ''allow_deletions'' = nullish (getProp c ''allow_deletions'') (JBool False)"
  "getProp (cleanInput c) ''block_creations'' = nullish (getProp c ''block_creations'') (JBool False)"
  "getProp (cleanInput c) ''required_conversation_resolution'' =
     nullish (getProp c ''required_conversation_resolution'') (JBool True)"
  "getProp (cleanInput c) ''restrictions'' = nullish (getProp c ''restrictions'') JNull"
  by (simp_all add: cleanInput_def getProp_Cons)

lemma getProp_transform:
  "getProp (transformProtectionResponse r) ''required_pull_request_reviews'' =
     getProp r ''required_pull_request_reviews''"
  "getProp (transformProtectionResponse r) ''required_status_checks'' =
     getProp r ''required_status_checks''"
  "getProp (transformProtectionResponse r) ''enforce_admins'' =
     extractEnabled (getProp r ''enforce_admins'')"
  "getProp (transformProtectionResponse r) ''required_linear_history'' =
     extractEnabled (getProp r ''required_linear_history'')"
  "getProp (transformProtectionResponse r) ''allow_force_pushes'' =
     extractEnabled (getProp r ''allow_force_pushes'')"
  "getProp (transformProtectionResponse r) ''allow_deletions'' =
     extractEnabled (getProp r ''allow_deletions'')"
  "getProp (transformProtectionResponse r) ''block_creations'' =
     extractEnabled (getProp r ''block_creations'')"
  "getProp (transformProtectionResponse r) ''required_conversation_resolution'' =
     extractEnabled (getProp r ''required_conversation_resolution'')"
  "getProp (transformProtectionResponse r) ''restrictions'' = getProp r ''restrictions''"
  by (simp_all add: transformProtectionResponse_def getProp_Cons)

lemma nullish_idem: "nullish (nullish v JNull) JNull = nullish v JNull"
  by (simp add: nullish_def)

lemma flag_roundtrip:
  "isFlagValue v \<Longrightarrow>
     nullish (extractEnabled (nullish v (JBool d))) (JBool d) = nullish v (JBool d)"
  by (cases v) (simp_all add: nullish_def)

lemma cleanInput_roundtrip:
  assumes "flagsTyped c"
  shows "cleanInput (transformProtectionResponse (cleanInput c)) = cleanInput c"
proof -
  from assms have f:
    "isFlagValue (getProp c ''enforce_admins'')"
    "isFlagValue (getProp c ''required_linear_history'')"
    "isFlagValue (getProp c ''allow_force_pushes'')"
    "isFlagValue (getProp c ''allow_deletions'')"
    "isFlagValue (getProp c ''block_creations'')"
    "isFlagValue (getProp c ''required_conversation_resolution'')"
    by (simp_all add: flagsTyped_def flagKeys_def)
  show ?thesis
    unfolding cleanInput_def [of "transformProtectionResponse (cleanInput c)"]
    unfolding getProp_transform getProp_cleanInput nullish_idem
    using f by (simp add: flag_roundtrip cleanInput_def)
qed

subsection \<open>The diff loop\<close>

lemma fold_diffStep:
  "fold (diffStep cur prop) ks d =
     \<lparr>added = added d @
        filter (\<lambda>k. k \<noteq> ''url'' \<and> currentValue cur k = JUndefined \<and> getProp prop k \<noteq> JUndefined) ks,
      removed = removed d @
        filter (\<lambda>k. k \<noteq> ''url'' \<and> currentValue cur k \<noteq> JUndefined \<and> getProp prop k = JUndefined) ks,
      changed = changed d @
        filter (\<lambda>k. k \<noteq> ''url''
                  \<and> (currentValue cur k = JUndefined) = (getProp prop k = JUndefined)
                  \<and> stringify (currentValue cur k) \<noteq> stringify (getProp prop k)) ks\<rparr>"
  by (induction ks arbitrary: d) (auto simp: diffStep_def Let_def)

text \<open>Without a live record nothing is removed; a record differs from itself nowhere.\<close>

lemma diffProtection_no_live_removed: "removed (diffProtection None proposed) = []"
  by (simp add: diffProtection_def fold_diffStep currentValue_def)

lemma diffProtection_same:
  "diffProtection (Some c) c = \<lparr>added = [], removed = [], changed = []\<rparr>"
  by (simp add: diffProtection_def fold_diffStep currentValue_def)

subsection \<open>The apply loop\<close>

lemma applyLoop_acc:
  "applyLoop f p ts acc w = (acc @ fst (applyLoop f p ts [] w), snd (applyLoop f p ts [] w))"
proof (induction ts arbitrary: acc w)
  case Nil
  show ?case by simp
next
  case (Cons t ts)
  obtain out w' where o: "f t p w = (out, w')" by (cases "f t p w")
  show ?case
    using Cons.IH [of "acc @ [resultOf t out]" w'] Cons.IH [of "[resultOf t out]" w']
    by (simp add: o)
qed

lemma applyLoop_append:
  "applyLoop f p (ts @ us) acc w =
     applyLoop f p us (fst (applyLoop f p ts acc w)) (snd (applyLoop f p ts acc w))"
  by (induction ts arbitrary: acc w) (auto split: prod.splits)

lemma applyLoop_length: "length (fst (applyLoop f p ts acc w)) = length acc + length ts"
  by (induction ts arbitrary: acc w) (auto split: prod.splits)

lemma resultOf_fields:
  "res_repo (resultOf t out) = targetRepository t"
  "res_branch (resultOf t out) = tgt_branch t"
  "res_success (resultOf t out) = (out = Returned)"
  "(res_error (resultOf t out) = None) = (out = Returned)"
  by (cases out; simp)+

lemma applyLoop_repo:
  "map res_repo (fst (applyLoop f p ts acc w)) = map res_repo acc @ map targetRepository ts"
  by (induction ts arbitrary: acc w) (auto split: prod.splits simp: resultOf_fields)

lemma applyLoop_branch:
  "map res_branch (fst (applyLoop f p ts acc w)) = map res_branch acc @ map tgt_branch ts"
  by (induction ts arbitrary: acc w) (auto split: prod.splits simp: resultOf_fields)

lemma applyLoop_error:
  "list_all (\<lambda>r. (res_error r = None) = res_success r) acc \<Longrightarrow>
   list_all (\<lambda>r. (res_error r = None) = res_success r) (fst (applyLoop f p ts acc w))"
  by (induction ts arbitrary: acc w) (auto split: prod.splits simp: resultOf_fields)

lemma countResults_fold:
  "fold (\<lambda>result (success, failed).
           if res_success result then (success + 1, failed) else (success, failed + 1)) rs (a, b)
   = (a + length (filter res_success rs), b + length (filter (\<lambda>r. \<not> res_success r) rs))"
  by (induction rs arbitrary: a b) auto

lemma countResults_eq:
  "countResults rs =
     (length (filter res_success rs), length (filter (\<lambda>r. \<not> res_success r) rs))"
  by (simp add: countResults_def countResults_fold)

lemma countResults_sum: "fst (countResults rs) + snd (countResults rs) = length rs"
  by (simp add: countResults_eq sum_length_filter_compl)

lemma second_of_three_fails:
  "map res_success (fst (applyProtectionToMultiple secondCallFails threeTargets () 0))
     = [True, False, True]"
  by (simp add: applyProtectionToMultiple_def secondCallFails_def threeTargets_def)


subsection \<open>Parsing\<close>

lemma parseInt_examples:
  "parseInt ''-1'' = Some (- 1)"
  "parseInt ''abc'' = None"
  "parseInt [] = None"
  "parseInt ''12abc'' = Some 12"
  by (simp_all add: parseInt_def isWhiteSpace_def isDigit_def digitsValue_def digitValue_def)













subsection \<open>What the editor leaves alone\<close>

lemma protection_renderFields: "protection (renderFields s) = protection s"
  by (simp add: renderFields_def)

lemma liveOnly_setReviews: "liveOnly (protection (setReviews r s)) = liveOnly (protection s)"
  by (simp add: setReviews_def liveOnly_def)

lemma liveOnly_setStatusChecks:
  "liveOnly (protection (setStatusChecks r s)) = liveOnly (protection s)"
  by (simp add: setStatusChecks_def liveOnly_def)

lemma liveOnly_flag_updates:
  "liveOnly (p\<lparr>enforce_admins := a\<rparr>) = liveOnly p"
  "liveOnly (p\<lparr>required_linear_history := a\<rparr>) = liveOnly p"
  "liveOnly (p\<lparr>allow_force_pushes := a\<rparr>) = liveOnly p"
  "liveOnly (p\<lparr>allow_deletions := a\<rparr>) = liveOnly p"
  "liveOnly (p\<lparr>block_creations := a\<rparr>) = liveOnly p"
  "liveOnly (p\<lparr>required_conversation_resolution := a\<rparr>) = liveOnly p"
  by (simp_all add: liveOnly_def)

lemma liveOnly_updateProtectionFromField:
  "liveOnly (protection (updateProtectionFromField field s)) = liveOnly (protection s)"
  by (simp add: updateProtectionFromField_def Let_def protection_renderFields
        liveOnly_setReviews liveOnly_setStatusChecks liveOnly_flag_updates
      split: nullable.split FieldValue.split)

lemma liveOnly_addWorkflowChecks:
  "liveOnly (protection (addWorkflowChecks names s)) = liveOnly (protection s)"
  by (simp add: addWorkflowChecks_def Let_def protection_renderFields liveOnly_setStatusChecks)

lemma protection_showWorkflowModal: "protection (showWorkflowModal s) = protection s"
  by (simp add: showWorkflowModal_def)

lemma liveOnly_handleModalKey:
  "liveOnly (protection (handleModalKey key s)) = liveOnly (protection s)"
  by (simp add: handleModalKey_def Let_def protection_renderFields liveOnly_addWorkflowChecks
      split: option.split)

lemma liveOnly_handleKey:
  "liveOnly (protection (fst (handleKey key s))) = liveOnly (protection s)"
  by (simp add: handleKey_def protection_renderFields liveOnly_handleModalKey
        liveOnly_updateProtectionFromField protection_showWorkflowModal
      split: option.split)

lemma saved_handleKey:
  "saved (snd (handleKey key s)) = [] \<or> saved (snd (handleKey key s)) = [protection s]"
  by (simp add: handleKey_def split: option.split)

lemma liveOnly_inputEvent:
  "liveOnly (protection (inputEvent i val s)) = liveOnly (protection s)"
proof -
  have u: "\<And>f t. liveOnly (protection (updateProtectionFromField f (t::EditorState)))
             = liveOnly (protection t)"
    by (rule liveOnly_updateProtectionFromField)
  show ?thesis
    by (simp add: inputEvent_def u split: option.split FieldType.split)
qed

lemma protection_setRepoInfo: "protection (setRepoInfo owner repo wfs s) = protection s"
  by (simp add: setRepoInfo_def protection_renderFields)

lemma liveOnly_editorStep:
  "liveOnly (protection (fst (editorStep e s))) = liveOnly (protection s)"
  by (cases e) (simp_all add: liveOnly_handleKey liveOnly_inputEvent protection_setRepoInfo)

lemma saved_editorStep:
  "saved (snd (editorStep e s)) = [] \<or> saved (snd (editorStep e s)) = [protection s]"
  by (cases e) (simp_all add: saved_handleKey)

lemma runEditor_liveOnly:
  "list_all (\<lambda>p. liveOnly p = liveOnly (protection s)) (runEditor es s)"
proof (induction es arbitrary: s)
  case Nil
  show ?case by simp
next
  case (Cons e es)
  obtain s' c where st: "editorStep e s = (s', c)" by (cases "editorStep e s")
  have l: "liveOnly (protection s') = liveOnly (protection s)"
    using liveOnly_editorStep [of e s] st by simp
  have sv: "saved c = [] \<or> saved c = [protection s]"
    using saved_editorStep [of e s] st by simp
  from Cons.IH [of s'] l sv st show ?case by auto
qed

lemma protection_setProtection:
  "protection (setProtection p s)
     = (case p of Some live \<Rightarrow> live | None \<Rightarrow> createDefaultProtection)"
  by (simp add: setProtection_def protection_renderFields)

lemma objectKeys_cleanInput:
  "objectKeys (cleanInput c)
     = [''required_pull_request_reviews'', ''required_status_checks'', ''enforce_admins'',
        ''required_linear_history'', ''allow_force_pushes'', ''allow_deletions'',
        ''block_creations'', ''required_conversation_resolution'', ''restrictions'']"
  by (simp add: objectKeys_def cleanInput_def)

subsection \<open>Pushing new contexts\<close>

lemma pushNew_fun: "(\<lambda>k acc. if k \<in> set acc then acc else acc @ [k]) = pushNew"
  by (rule ext, rule ext) (simp add: pushNew_def)

lemma fold_pushNew_append:
  "fold pushNew ns (cs @ acc) = cs @ fold pushNew (filter (\<lambda>n. n \<notin> set cs) ns) acc"
  by (induction ns arbitrary: acc) (auto simp: pushNew_def)

lemma fold_pushNew:
  "fold pushNew ns cs = cs @ keySet (filter (\<lambda>n. n \<notin> set cs) ns)"
  using fold_pushNew_append [of ns cs "[]"] by (simp add: keySet_def pushNew_fun)

lemma keySet_snoc: "keySet (xs @ [x]) = pushNew x (keySet xs)"
  by (simp add: keySet_def pushNew_fun)

lemma keySet_remdups: "keySet xs = rev (remdups (rev xs))"
proof (induction xs rule: rev_induct)
  case Nil
  show ?case by (simp add: keySet_def)
next
  case (snoc x xs)
  have "set (keySet xs) = set xs" by (simp add: snoc.IH)
  then show ?case by (simp add: keySet_snoc pushNew_def snoc.IH)
qed

lemma currentContexts_addWorkflowChecks:
  "currentContexts (protection (addWorkflowChecks names s))
     = fold pushNew names (currentContexts (protection s))"
  by (simp add: addWorkflowChecks_def Let_def protection_renderFields setStatusChecks_def
        currentContexts_def defaultStatusChecks_def split: nullable.split)


subsection \<open>The claims\<close>

text \<open>
  C1. For every target list, every apply function and every starting world, the batch
  apply returns one result per target, in the order of the targets. Each result's
  repository has the target's repository as name, the target's owner as owner login and
  owner/repository as full name, and each result has the target's branch. A result has
  no error message exactly when it is successful. The result of a single target is
  successful exactly when its own call returned, and otherwise carries the thrown error's
  message, or Unknown error for a thrown value that is no error. The results of a list
  followed by another are the results of the first followed by the results of the second
  run from where the first ended, so no outcome stops or skips what follows. The two
  counters of the results view are the number of successful and of unsuccessful results,
  and add up to the number of targets.
\<close>

theorem applyProtectionToMultiple_results:
  "length (fst (applyProtectionToMultiple applyOne targets p w)) = length targets
   \<and> map res_repo (fst (applyProtectionToMultiple applyOne targets p w))
       = map (\<lambda>t. \<lparr>repo_id = None, repo_name = tgt_repo t,
                    full_name = tgt_owner t @ ''/'' @ tgt_repo t, owner_login = tgt_owner t,
                    is_private = None, default_branch = None, permissions = None\<rparr>) targets
   \<and> map res_branch (fst (applyProtectionToMultiple applyOne targets p w))
       = map tgt_branch targets
   \<and> list_all (\<lambda>r. (res_error r = None) = res_success r)
       (fst (applyProtectionToMultiple applyOne targets p w))
   \<and> map res_success (fst (applyProtectionToMultiple applyOne [t] p w))
       = [fst (applyOne t p w) = Returned]
   \<and> map res_error (fst (applyProtectionToMultiple applyOne [t] p w))
       = [case fst (applyOne t p w) of
            Returned \<Rightarrow> None
          | ThrewError message \<Rightarrow> Some message
          | ThrewOther \<Rightarrow> Some ''Unknown error'']
   \<and> snd (applyProtectionToMultiple applyOne [t] p w) = snd (applyOne t p w)
   \<and> applyProtectionToMultiple applyOne (targets @ others) p w
       = (fst (applyProtectionToMultiple applyOne targets p w)
            @ fst (applyProtectionToMultiple applyOne others p
                     (snd (applyProtectionToMultiple applyOne targets p w))),
          snd (applyProtectionToMultiple applyOne others p
                 (snd (applyProtectionToMultiple applyOne targets p w))))
   \<and> countResults (fst (applyProtectionToMultiple applyOne targets p w))
       = (length (filter res_success (fst (applyProtectionToMultiple applyOne targets p w))),
          length (filter (\<lambda>r. \<not> res_success r)
                    (fst (applyProtectionToMultiple applyOne targets p w))))
   \<and> fst (countResults (fst (applyProtectionToMultiple applyOne targets p w)))
       + snd (countResults (fst (applyProtectionToMultiple applyOne targets p w)))
       = length targets"
proof -
  let ?A = "\<lambda>ts v. applyLoop applyOne p ts [] v"
  have len: "length (fst (?A targets w)) = length targets"
    by (simp add: applyLoop_length)
  have repo: "map res_repo (fst (?A targets w))
       = map (\<lambda>t. \<lparr>repo_id = None, repo_name = tgt_repo t,
                    full_name = tgt_owner t @ ''/'' @ tgt_repo t, owner_login = tgt_owner t,
                    is_private = None, default_branch = None, permissions = None\<rparr>) targets"
    by (simp add: applyLoop_repo targetRepository_def)
  have br: "map res_branch (fst (?A targets w)) = map tgt_branch targets"
    by (simp add: applyLoop_branch)
  have err: "list_all (\<lambda>r. (res_error r = None) = res_success r) (fst (?A targets w))"
    by (rule applyLoop_error) simp
  have one: "?A [t] w = ([resultOf t (fst (applyOne t p w))], snd (applyOne t p w))"
    by (simp split: prod.splits)
  have ok: "map res_success (fst (?A [t] w)) = [fst (applyOne t p w) = Returned]"
    unfolding one by (simp add: resultOf_fields)
  have msg: "map res_error (fst (?A [t] w))
       = [case fst (applyOne t p w) of
            Returned \<Rightarrow> None
          | ThrewError message \<Rightarrow> Some message
          | ThrewOther \<Rightarrow> Some ''Unknown error'']"
    unfolding one by (cases "fst (applyOne t p w)") simp_all
  have world: "snd (?A [t] w) = snd (applyOne t p w)"
    unfolding one by simp
  have app: "?A (targets @ others) w
      = (fst (?A targets w) @ fst (?A others (snd (?A targets w))), snd (?A others (snd (?A targets w))))"
    by (subst applyLoop_append, subst applyLoop_acc) simp
  have cnt: "fst (countResults (fst (?A targets w))) + snd (countResults (fst (?A targets w)))
      = length targets"
    by (simp add: countResults_sum applyLoop_length)
  show ?thesis
    unfolding applyProtectionToMultiple_def
    using len repo br err ok msg world app cnt countResults_eq [of "fst (?A targets w)"]
    by simp
qed

text \<open>
  C2, as the claim states it: that for the live record with \<^verbatim>\<open>null\<close> reviews the diff
  has changed = [enforce_admins] and added = [required_pull_request_reviews]. It does not:
  \<^verbatim>\<open>null\<close> is not \<^verbatim>\<open>undefined\<close>, so the key is not added.
\<close>

theorem diffProtection_null_live_counterexample:
  "\<not> (changed (diffProtection (Some scenarioLiveNull) scenarioProposed) = [''enforce_admins'']
      \<and> added (diffProtection (Some scenarioLiveNull) scenarioProposed)
          = [''required_pull_request_reviews''])"
  by code_simp

text \<open>
  C2, amended. For the live record with \<^verbatim>\<open>null\<close> reviews the diff has
  changed = [enforce_admins, required_pull_request_reviews] and nothing added. For the live
  record without the reviews property it has changed = [enforce_admins] and
  added = [required_pull_request_reviews]. In general the added keys are the keys, other
  than url, whose live value is \<^verbatim>\<open>undefined\<close> and whose proposed value is not.
\<close>

theorem diffProtection_scenario:
  "diffProtection (Some scenarioLiveNull) scenarioProposed
     = \<lparr>added = [], removed = [],
        changed = [''enforce_admins'', ''required_pull_request_reviews'']\<rparr>
   \<and> diffProtection (Some scenarioLiveAbsent) scenarioProposed
     = \<lparr>added = [''required_pull_request_reviews''], removed = [],
        changed = [''enforce_admins'']\<rparr>
   \<and> added (diffProtection current proposed)
     = filter (\<lambda>k. k \<noteq> ''url'' \<and> currentValue current k = JUndefined
                       \<and> getProp proposed k \<noteq> JUndefined)
         (keySet (objectKeys (case current of None \<Rightarrow> [] | Some c \<Rightarrow> c) @ objectKeys proposed))"
proof -
  have a: "diffProtection (Some scenarioLiveNull) scenarioProposed
     = \<lparr>added = [], removed = [],
        changed = [''enforce_admins'', ''required_pull_request_reviews'']\<rparr>"
    by code_simp
  have b: "diffProtection (Some scenarioLiveAbsent) scenarioProposed
     = \<lparr>added = [''required_pull_request_reviews''], removed = [],
        changed = [''enforce_admins'']\<rparr>"
    by code_simp
  show ?thesis
    using a b by (simp add: diffProtection_def fold_diffStep)
qed

text \<open>
  C4, as the claim states it: that a missing flag, or a flag given as a string, is
  \<^verbatim>\<open>false\<close> in the normalized record. A missing flag is \<^verbatim>\<open>null\<close> and the string is
  kept.
\<close>

theorem transformProtectionResponse_false_counterexample:
  "\<not> (getProp (transformProtectionResponse []) ''enforce_admins'' = JBool False
      \<or> getProp (transformProtectionResponse [(''enforce_admins'', JStr ''yes'')])
            ''enforce_admins'' = JBool False)"
  by (simp add: getProp_transform getProp_Cons getProp_Nil)

text \<open>
  C4, amended. The transformation is defined on every record and always yields the same
  twelve properties. Each flag of the result is \<^verbatim>\<open>extractEnabled\<close> of the raw
  property: a boolean is kept; an object with an \<^verbatim>\<open>enabled\<close> property gives that
  property's value, of whatever type; a missing or \<^verbatim>\<open>null\<close> property gives
  \<^verbatim>\<open>null\<close>; a string, a number, an array or an object without \<^verbatim>\<open>enabled\<close> is
  returned as it is. Nothing is turned into \<^verbatim>\<open>false\<close>.
\<close>

theorem transformProtectionResponse_flags:
  "objectKeys (transformProtectionResponse raw)
     = [''url'', ''required_pull_request_reviews'', ''required_status_checks'',
        ''enforce_admins'', ''required_linear_history'', ''allow_force_pushes'',
        ''allow_deletions'', ''block_creations'', ''required_conversation_resolution'',
        ''restrictions'', ''required_signatures'', ''lock_branch'']
   \<and> map (getProp (transformProtectionResponse raw)) flagKeys
     = map (\<lambda>k. extractEnabled (getProp raw k)) flagKeys
   \<and> extractEnabled (JBool b) = JBool b
   \<and> extractEnabled (JObj kvs)
     = (if ''enabled'' \<in> set (objectKeys kvs) then getProp kvs ''enabled'' else JObj kvs)
   \<and> extractEnabled (JObj ((''enabled'', v) # rest)) = v
   \<and> extractEnabled JUndefined = JNull
   \<and> extractEnabled JNull = JNull
   \<and> extractEnabled (JStr t) = JStr t
   \<and> extractEnabled (JNum n) = JNum n
   \<and> extractEnabled (JArr xs) = JArr xs"
proof -
  have keys: "objectKeys (transformProtectionResponse raw)
     = [''url'', ''required_pull_request_reviews'', ''required_status_checks'',
        ''enforce_admins'', ''required_linear_history'', ''allow_force_pushes'',
        ''allow_deletions'', ''block_creations'', ''required_conversation_resolution'',
        ''restrictions'', ''required_signatures'', ''lock_branch'']"
    by (simp add: objectKeys_def transformProtectionResponse_def)
  have flags: "map (getProp (transformProtectionResponse raw)) flagKeys
     = map (\<lambda>k. extractEnabled (getProp raw k)) flagKeys"
    by (simp add: flagKeys_def getProp_transform)
  show ?thesis
    using keys flags by (simp add: objectKeys_def getProp_Cons)
qed

text \<open>
  C8. For every protection record whose six flags have their declared type (a boolean, or
  no value), the submission record of the normalized submission record has the same value
  on every flag as the submission record itself; the two records are equal as a whole.
\<close>

theorem cleanInput_idempotent_over_normalize:
  assumes "flagsTyped c"
  shows "map (getProp (cleanInput (transformProtectionResponse (cleanInput c)))) flagKeys
           = map (getProp (cleanInput c)) flagKeys
         \<and> cleanInput (transformProtectionResponse (cleanInput c)) = cleanInput c"
  using cleanInput_roundtrip [OF assms] by simp

theorem cleanInput_idempotent_over_normalize_witness:
  "flagsTyped [(''enforce_admins'', JBool True), (''required_status_checks'', JNull)]
   \<and> map (getProp (cleanInput (transformProtectionResponse
             (cleanInput [(''enforce_admins'', JBool True), (''required_status_checks'', JNull)]))))
       flagKeys
     = [JBool True, JBool False, JBool False, JBool False, JBool False, JBool True]"
proof -
  have t: "flagsTyped [(''enforce_admins'', JBool True), (''required_status_checks'', JNull)]"
    by (simp add: flagsTyped_def flagKeys_def getProp_Cons getProp_Nil)
  have v: "map (getProp (cleanInput [(''enforce_admins'', JBool True), (''required_status_checks'', JNull)]))
             flagKeys
           = [JBool True, JBool False, JBool False, JBool False, JBool False, JBool True]"
    by (simp add: flagKeys_def getProp_cleanInput getProp_Cons getProp_Nil nullish_def)
  from cleanInput_idempotent_over_normalize [OF t] t v show ?thesis by simp
qed

text \<open>
  C3, as the claim states it: that a protection handed out on confirm after the editor was
  seeded from a live protection has no url, no required_signatures and no lock_branch.
  Seeded with a live protection that has them and confirmed at once with Ctrl+A, the
  editor hands out a protection that has them.
\<close>

theorem editor_discards_counterexample:
  "\<not> list_all (\<lambda>p. url p = None \<and> required_signatures p = Absent \<and> lock_branch p = None)
       (runEditor [KeyPress ctrlA] (setProtection (Some liveWithUrl) createProtectionEditor))"
  by (simp add: handleKey_def ctrlA_def setProtection_def renderFields_def
        createProtectionEditor_def liveWithUrl_def)

text \<open>
  C3, amended. \<^verbatim>\<open>setProtection\<close> copies every property of the live protection, and no
  key, input event or workflow list changes url, required_signatures or lock_branch: every
  protection handed out on confirm has the live protection's values for them, and after
  seeding with \<^verbatim>\<open>null\<close> it has none of them. Confirmed at once, the editor that
  \<^verbatim>\<open>showEditor\<close> seeds hands out the live protection itself, which becomes the proposed
  protection. The three properties are left out only where \<^verbatim>\<open>updateBranchProtection\<close>
  builds \<^verbatim>\<open>cleanInput\<close>, which has the nine input properties and no other.
\<close>

theorem editor_keeps_live_only_fields:
  "list_all (\<lambda>p. url p = url live \<and> required_signatures p = required_signatures live
                  \<and> lock_branch p = lock_branch live)
     (runEditor events (setProtection (Some live) s))
   \<and> list_all (\<lambda>p. url p = None \<and> required_signatures p = Absent \<and> lock_branch p = None)
       (runEditor events (setProtection None s))
   \<and> runEditor [KeyPress ctrlA] (setProtection (Some live) createProtectionEditor) = [live]
   \<and> snd (showEditor app) = setProtection (currentProtection app) createProtectionEditor
   \<and> proposedProtection (editorSaved live app) = Some live
   \<and> objectKeys (cleanInput c)
       = [''required_pull_request_reviews'', ''required_status_checks'', ''enforce_admins'',
          ''required_linear_history'', ''allow_force_pushes'', ''allow_deletions'',
          ''block_creations'', ''required_conversation_resolution'', ''restrictions'']"
proof -
  have kept: "list_all (\<lambda>p. url p = url live \<and> required_signatures p = required_signatures live
                  \<and> lock_branch p = lock_branch live)
     (runEditor events (setProtection (Some live) s))"
    using runEditor_liveOnly [of "setProtection (Some live) s" events]
    by (simp add: protection_setProtection liveOnly_def)
  have none: "list_all (\<lambda>p. url p = None \<and> required_signatures p = Absent \<and> lock_branch p = None)
       (runEditor events (setProtection None s))"
    using runEditor_liveOnly [of "setProtection None s" events]
    by (simp add: protection_setProtection liveOnly_def createDefaultProtection_def)
  have once: "runEditor [KeyPress ctrlA] (setProtection (Some live) createProtectionEditor) = [live]"
    by (simp add: handleKey_def ctrlA_def setProtection_def renderFields_def
          createProtectionEditor_def)
  have seeded: "snd (showEditor app) = setProtection (currentProtection app) createProtectionEditor"
    by (simp add: showEditor_def)
  have stored: "proposedProtection (editorSaved live app) = Some live"
    by (simp add: editorSaved_def)
  from kept none once seeded stored objectKeys_cleanInput [of c] show ?thesis by simp
qed

text \<open>
  C5, as the claim states it: that choosing a new organization clears the selected
  repositories, the branch, both protections and the results; that choosing repositories
  clears the branch, the protections and the results; that choosing a branch clears the
  proposed protection and the results. From a state that holds all of them, none of the
  three transitions clears anything.
\<close>

theorem selection_clears_counterexample:
  "\<not> (selectedRepos (orgSelected otherOrg (\<lambda>login. Resolved []) busyState) = []
      \<and> branch (orgSelected otherOrg (\<lambda>login. Resolved []) busyState) = None
      \<and> currentProtection (orgSelected otherOrg (\<lambda>login. Resolved []) busyState) = None
      \<and> proposedProtection (orgSelected otherOrg (\<lambda>login. Resolved []) busyState) = None
      \<and> results (orgSelected otherOrg (\<lambda>login. Resolved []) busyState) = [])
   \<and> \<not> (branch (reposSelected [acmeApi] (\<lambda>owner repo. Resolved []) busyState) = None
      \<and> currentProtection (reposSelected [acmeApi] (\<lambda>owner repo. Resolved []) busyState) = None
      \<and> proposedProtection (reposSelected [acmeApi] (\<lambda>owner repo. Resolved []) busyState) = None
      \<and> results (reposSelected [acmeApi] (\<lambda>owner repo. Resolved []) busyState) = [])
   \<and> \<not> (proposedProtection
          (branchSelected acmeApi ''dev'' (\<lambda>owner repo b. Resolved None) busyState) = None
      \<and> results (branchSelected acmeApi ''dev'' (\<lambda>owner repo b. Resolved None) busyState) = [])"
  by (simp add: orgSelected_def showRepoSelector_def reposSelected_def showBranchSelector_def
        branchSelected_def showEditor_def showLoading_def hideLoading_def busyState_def)

text \<open>
  C5, amended. The selection transitions store the new selection and clear nothing.
  Choosing an organization stores it and leaves the selected repositories, the branch, the
  live and the proposed protection and the results as they were. Choosing repositories
  stores them and leaves the organization, the branch, both protections and the results
  as they were. Choosing a branch stores it and fetches the live protection, which
  replaces the stored one when the fetch resolves and is kept when it fails; the
  organization, the selected repositories, the proposed protection and the results stay
  as they were.
\<close>

theorem selection_frame:
  "org (orgSelected new_org getOrgRepos s) = Some new_org
   \<and> selectedRepos (orgSelected new_org getOrgRepos s) = selectedRepos s
   \<and> branch (orgSelected new_org getOrgRepos s) = branch s
   \<and> currentProtection (orgSelected new_org getOrgRepos s) = currentProtection s
   \<and> proposedProtection (orgSelected new_org getOrgRepos s) = proposedProtection s
   \<and> results (orgSelected new_org getOrgRepos s) = results s
   \<and> selectedRepos (reposSelected rs getRepoBranches s) = rs
   \<and> org (reposSelected rs getRepoBranches s) = org s
   \<and> branch (reposSelected rs getRepoBranches s) = branch s
   \<and> currentProtection (reposSelected rs getRepoBranches s) = currentProtection s
   \<and> proposedProtection (reposSelected rs getRepoBranches s) = proposedProtection s
   \<and> results (reposSelected rs getRepoBranches s) = results s
   \<and> branch (branchSelected repo b getBranchProtection s) = Some b
   \<and> currentProtection (branchSelected repo b getBranchProtection s)
       = (case getBranchProtection (owner_login repo) (repo_name repo) b of
            Resolved live \<Rightarrow> live
          | _ \<Rightarrow> currentProtection s)
   \<and> org (branchSelected repo b getBranchProtection s) = org s
   \<and> selectedRepos (branchSelected repo b getBranchProtection s) = selectedRepos s
   \<and> proposedProtection (branchSelected repo b getBranchProtection s) = proposedProtection s
   \<and> results (branchSelected repo b getBranchProtection s) = results s"
proof -
  have o: "org (orgSelected new_org getOrgRepos s) = Some new_org
   \<and> selectedRepos (orgSelected new_org getOrgRepos s) = selectedRepos s
   \<and> branch (orgSelected new_org getOrgRepos s) = branch s
   \<and> currentProtection (orgSelected new_org getOrgRepos s) = currentProtection s
   \<and> proposedProtection (orgSelected new_org getOrgRepos s) = proposedProtection s
   \<and> results (orgSelected new_org getOrgRepos s) = results s"
    by (cases "getOrgRepos (org_login new_org)")
       (simp_all add: orgSelected_def showRepoSelector_def showLoading_def hideLoading_def
          showError_def)
  have r: "selectedRepos (reposSelected rs getRepoBranches s) = rs
   \<and> org (reposSelected rs getRepoBranches s) = org s
   \<and> branch (reposSelected rs getRepoBranches s) = branch s
   \<and> currentProtection (reposSelected rs getRepoBranches s) = currentProtection s
   \<and> proposedProtection (reposSelected rs getRepoBranches s) = proposedProtection s
   \<and> results (reposSelected rs getRepoBranches s) = results s"
  proof (cases rs)
    case Nil
    then show ?thesis by (simp add: reposSelected_def showBranchSelector_def)
  next
    case (Cons x xs)
    then show ?thesis
      by (cases "getRepoBranches (owner_login x) (repo_name x)")
         (simp_all add: reposSelected_def showBranchSelector_def showLoading_def hideLoading_def
            showError_def)
  qed
  have b: "branch (branchSelected repo b getBranchProtection s) = Some b
   \<and> currentProtection (branchSelected repo b getBranchProtection s)
       = (case getBranchProtection (owner_login repo) (repo_name repo) b of
            Resolved live \<Rightarrow> live
          | _ \<Rightarrow> currentProtection s)
   \<and> org (branchSelected repo b getBranchProtection s) = org s
   \<and> selectedRepos (branchSelected repo b getBranchProtection s) = selectedRepos s
   \<and> proposedProtection (branchSelected repo b getBranchProtection s) = proposedProtection s
   \<and> results (branchSelected repo b getBranchProtection s) = results s"
    by (cases "getBranchProtection (owner_login repo) (repo_name repo) b")
       (simp_all add: branchSelected_def showEditor_def showLoading_def hideLoading_def
          showError_def)
  from o r b show ?thesis by simp
qed




text \<open>
  C7. Opening the picker with at least one known check gives one item per check, in the
  list's order, selected exactly when the check's name is among the contexts. Confirming
  with Return or Enter while the picker is shown leaves the existing contexts first and
  appends the names of the selected items that are not among them, each once, in the
  order of the items; the names of items that are not selected are not appended; the
  picker is closed. The contexts of a protection are those of its status checks, none
  when it has no status checks. In the scenario the picker opens with ci/build selected
  only; confirming at once gives the contexts ci/build, and confirming after ci/test is
  selected gives ci/build, ci/test.
\<close>

theorem workflow_picker:
  assumes "workflows s \<noteq> []"
    and "showWorkflowModalFlag m"
    and "key_name k = ''return'' \<or> key_name k = ''enter''"
  shows
    "workflowItems (showWorkflowModal s)
       = map (\<lambda>w. \<lparr>workflow = w,
                    selected = (wf_name w \<in> set (currentContexts (protection s)))\<rparr>)
           (workflows s)
     \<and> showWorkflowModalFlag (showWorkflowModal s)
     \<and> currentContexts (protection (fst (handleKey k m)))
         = currentContexts (protection m)
             @ rev (remdups (rev
                 (filter (\<lambda>n. n \<notin> set (currentContexts (protection m)))
                    (map (\<lambda>item. wf_name (workflow item))
                       (filter selected (workflowItems m))))))
     \<and> \<not> showWorkflowModalFlag (fst (handleKey k m))
     \<and> currentContexts q
         = (case required_status_checks q of Val rsc \<Rightarrow> contexts rsc | _ \<Rightarrow> [])"
proof -
  have sel: "\<And>w. alreadyAdded (protection s) w
               = (wf_name w \<in> set (currentContexts (protection s)))"
    by (simp add: alreadyAdded_def currentContexts_def split: nullable.split)
  have items: "workflowItems (showWorkflowModal s)
       = map (\<lambda>w. \<lparr>workflow = w,
                    selected = (wf_name w \<in> set (currentContexts (protection s)))\<rparr>)
           (workflows s)"
    using assms(1) by (simp add: showWorkflowModal_def sel)
  have shown: "showWorkflowModalFlag (showWorkflowModal s)"
    using assms(1) by (simp add: showWorkflowModal_def)
  have other: "key_name k \<noteq> ''escape''" "key_name k \<noteq> ''up''" "key_name k \<noteq> ''k''"
    "key_name k \<noteq> ''down''" "key_name k \<noteq> ''j''" "key_name k \<noteq> ''space''"
    using assms(3) by auto
  have hk: "fst (handleKey k m) =
      (if length (selectedNames (workflowItems m)) > 0
       then addWorkflowChecks (selectedNames (workflowItems m))
              (m\<lparr>showWorkflowModalFlag := False\<rparr>)
       else renderFields (m\<lparr>showWorkflowModalFlag := False\<rparr>))"
    using assms(2,3) other by (simp add: handleKey_def handleModalKey_def Let_def)
  have names: "selectedNames (workflowItems m)
      = map (\<lambda>item. wf_name (workflow item)) (filter selected (workflowItems m))"
    by (simp add: selectedNames_def)
  have post: "currentContexts (protection (fst (handleKey k m)))
         = currentContexts (protection m)
             @ keySet (filter (\<lambda>n. n \<notin> set (currentContexts (protection m)))
                         (selectedNames (workflowItems m)))"
  proof (cases "selectedNames (workflowItems m) = []")
    case True
    then show ?thesis by (simp add: hk protection_renderFields keySet_def)
  next
    case False
    then show ?thesis
      by (simp add: hk currentContexts_addWorkflowChecks fold_pushNew)
  qed
  have closed: "\<not> showWorkflowModalFlag (fst (handleKey k m))"
    by (simp add: hk addWorkflowChecks_def Let_def renderFields_def setStatusChecks_def)
  have cc: "currentContexts q
         = (case required_status_checks q of Val rsc \<Rightarrow> contexts rsc | _ \<Rightarrow> [])"
    by (simp add: currentContexts_def)
  from items shown post closed cc show ?thesis
    by (simp only: keySet_remdups names simp_thms)
qed

theorem workflow_picker_witness:
  "workflows pickerSeed \<noteq> []
   \<and> showWorkflowModalFlag pickerOpened
   \<and> showWorkflowModalFlag pickerToggled
   \<and> map selected (workflowItems (showWorkflowModal pickerSeed)) = [True, False]
   \<and> map selected (workflowItems pickerOpened) = [True, False]
   \<and> map selected (workflowItems pickerToggled) = [True, True]
   \<and> currentContexts (protection (fst (handleKey (plainKey ''return'') pickerOpened)))
       = [''ci/build'']
   \<and> currentContexts (protection (fst (handleKey (plainKey ''return'') pickerToggled)))
       = [''ci/build'', ''ci/test'']"
proof -
  have h1: "workflows pickerSeed \<noteq> []" by code_simp
  have h2: "showWorkflowModalFlag pickerToggled" by code_simp
  have h2': "showWorkflowModalFlag pickerOpened" by code_simp
  have h3: "key_name (plainKey ''return'') = ''return''
              \<or> key_name (plainKey ''return'') = ''enter''"
    by (simp add: plainKey_def)
  have opened: "map selected (workflowItems pickerOpened) = [True, False]" by code_simp
  have toggled: "map selected (workflowItems pickerToggled) = [True, True]" by code_simp
  have pre: "map selected (map (\<lambda>w. \<lparr>workflow = w,
                    selected = (wf_name w \<in> set (currentContexts (protection pickerSeed)))\<rparr>)
           (workflows pickerSeed)) = [True, False]"
    by code_simp
  have post: "currentContexts (protection pickerToggled)
             @ rev (remdups (rev
                 (filter (\<lambda>n. n \<notin> set (currentContexts (protection pickerToggled)))
                    (map (\<lambda>item. wf_name (workflow item))
                       (filter selected (workflowItems pickerToggled))))))
      = [''ci/build'', ''ci/test'']"
    by code_simp
  have post': "currentContexts (protection pickerOpened)
             @ rev (remdups (rev
                 (filter (\<lambda>n. n \<notin> set (currentContexts (protection pickerOpened)))
                    (map (\<lambda>item. wf_name (workflow item))
                       (filter selected (workflowItems pickerOpened))))))
      = [''ci/build'']"
    by code_simp
  have seeded: "map selected (workflowItems (showWorkflowModal pickerSeed)) = [True, False]"
    using workflow_picker [OF h1 h2 h3, THEN conjunct1] pre by (simp only:)
  have unselected: "currentContexts (protection (fst (handleKey (plainKey ''return'') pickerOpened)))
       = [''ci/build'']"
    using workflow_picker [OF h1 h2' h3, THEN conjunct2, THEN conjunct2, THEN conjunct1] post'
    by (simp only:)
  have both: "currentContexts (protection (fst (handleKey (plainKey ''return'') pickerToggled)))
       = [''ci/build'', ''ci/test'']"
    using workflow_picker [OF h1 h2 h3, THEN conjunct2, THEN conjunct2, THEN conjunct1] post
    by (simp only:)
  from h1 h2' h2 seeded opened toggled unselected both show ?thesis
    by (intro conjI)
qed

text \<open>
  C9. Whatever the store holds, when a template is saved at a time \<open>now1\<close> and saved
  again under the same name at \<open>now2\<close>, the second template has the created_at of the
  first and the updated_at \<open>now2\<close>. A save sets updated_at to its own time, and created_at
  to its own time when no template of that name exists (or the existing one has none),
  else to the existing template's; what it returns is what it stores. \<open>now1\<close> is not
  empty: \<^verbatim>\<open>toISOString\<close> never returns the empty string.
\<close>

theorem saveTemplate_timestamps:
  assumes "now1 \<noteq> []"
  shows
    "created_at (fst (saveTemplate name p2 d2 now2 (snd (saveTemplate name p1 d1 now1 fs))))
       = created_at (fst (saveTemplate name p1 d1 now1 fs))
     \<and> updated_at (fst (saveTemplate name p2 d2 now2 (snd (saveTemplate name p1 d1 now1 fs))))
       = now2
     \<and> updated_at (fst (saveTemplate name p1 d1 now1 fs)) = now1
     \<and> created_at (fst (saveTemplate name p1 d1 now1 fs))
       = (case loadTemplate name fs of
            None \<Rightarrow> now1
          | Some e \<Rightarrow> if created_at e = [] then now1 else created_at e)
     \<and> loadTemplate name (snd (saveTemplate name p1 d1 now1 fs))
       = Some (fst (saveTemplate name p1 d1 now1 fs))"
  using assms
  by (simp add: saveTemplate_def loadTemplate_def Let_def split: option.splits)

theorem saveTemplate_timestamps_witness:
  "''2026-01-01T00:00:00.000Z'' \<noteq> []
   \<and> created_at (fst (saveTemplate ''basic'' createDefaultProtection None
         ''2026-01-02T00:00:00.000Z''
         (snd (saveTemplate ''basic'' createDefaultProtection None
                 ''2026-01-01T00:00:00.000Z'' Map.empty))))
       = ''2026-01-01T00:00:00.000Z''
   \<and> updated_at (fst (saveTemplate ''basic'' createDefaultProtection None
         ''2026-01-02T00:00:00.000Z''
         (snd (saveTemplate ''basic'' createDefaultProtection None
                 ''2026-01-01T00:00:00.000Z'' Map.empty))))
       = ''2026-01-02T00:00:00.000Z''"
proof -
  have h: "''2026-01-01T00:00:00.000Z'' \<noteq> []" by simp
  have first: "created_at (fst (saveTemplate ''basic'' createDefaultProtection None
              ''2026-01-01T00:00:00.000Z'' Map.empty)) = ''2026-01-01T00:00:00.000Z''"
    by (simp add: saveTemplate_def loadTemplate_def Let_def)
  from saveTemplate_timestamps [OF h, of "''basic''" createDefaultProtection None
      "''2026-01-02T00:00:00.000Z''" createDefaultProtection None Map.empty] first
  show ?thesis by simp
qed

text \<open>
  C10. After a template was saved with a description that is not empty, saving it again
  with no description, or with the empty one, keeps that description, and saving it with
  a new description that is not empty stores the new one. In any store, the saved
  template's description is the one given when it is given and not empty, and the
  existing template's description otherwise (none when no template of that name exists).
\<close>

theorem saveTemplate_description:
  assumes "d1 \<noteq> []" and "d2 \<noteq> []"
  shows
    "tpl_description
       (fst (saveTemplate name q None now2 (snd (saveTemplate name p (Some d1) now1 fs))))
       = Some d1
     \<and> tpl_description
         (fst (saveTemplate name q (Some []) now2 (snd (saveTemplate name p (Some d1) now1 fs))))
       = Some d1
     \<and> tpl_description
         (fst (saveTemplate name q (Some d2) now2 (snd (saveTemplate name p (Some d1) now1 fs))))
       = Some d2
     \<and> tpl_description (fst (saveTemplate name p d now1 fs))
       = (if d = None \<or> d = Some []
          then (case loadTemplate name fs of None \<Rightarrow> None | Some e \<Rightarrow> tpl_description e)
          else d)"
  using assms
  by (auto simp add: saveTemplate_def loadTemplate_def Let_def split: option.splits)

theorem saveTemplate_description_witness:
  "''Basic protection'' \<noteq> [] \<and> ''Two approvals'' \<noteq> []
   \<and> tpl_description
       (fst (saveTemplate ''basic'' createDefaultProtection None ''2026-01-02T00:00:00.000Z''
          (snd (saveTemplate ''basic'' createDefaultProtection (Some ''Basic protection'')
                  ''2026-01-01T00:00:00.000Z'' Map.empty))))
       = Some ''Basic protection''
   \<and> tpl_description
       (fst (saveTemplate ''basic'' createDefaultProtection (Some ''Two approvals'')
          ''2026-01-02T00:00:00.000Z''
          (snd (saveTemplate ''basic'' createDefaultProtection (Some ''Basic protection'')
                  ''2026-01-01T00:00:00.000Z'' Map.empty))))
       = Some ''Two approvals''"
proof -
  have h1: "''Basic protection'' \<noteq> []" by simp
  have h2: "''Two approvals'' \<noteq> []" by simp
  from saveTemplate_description [OF h1 h2, of "''basic''" createDefaultProtection
      "''2026-01-02T00:00:00.000Z''" createDefaultProtection "''2026-01-01T00:00:00.000Z''"
      Map.empty]
  show ?thesis by simp
qed

end
